theory Spec2Isabelle
  imports Main "HOL-Library.Word" "HOL-Library.Sublist" "HOL-Library.AList"
begin

section \<open>Common shapes (package base)\<close>

text \<open>
  The repository is a REST facade over a remote control plane. The typed client is an
  external collaborator: every remote call is a field of the record \<open>clientset\<close> below, so
  each theorem holds for every behaviour of the remote side. Logging (\<open>LogInfo\<close>,
  \<open>LogError\<close>) writes to the process log only and is left out.
\<close>

type_synonym int32 = "32 word"

text \<open>Go's \<open>[]byte\<close>: a \<open>char\<close> of HOL is one byte.\<close>

type_synonym bytes = "char list"

text \<open>
  Go's \<open>map[string]string\<close> as an association list; the \<open>nil\<close> map is \<open>None\<close> of the
  enclosing option.
\<close>

type_synonym strmap = "(string \<times> string) list"

text \<open>
  An error returned by the client: \<open>*errors.StatusError\<close> carries the remote status (code,
  reason, message; its \<open>Error()\<close> is the message), any other error only its text.
\<close>

datatype k8s_error =
    StatusError int32 string string
  | PlainError string

text \<open>The verb \<open>%d\<close> of \<open>fmt\<close>: signed decimal.\<close>

fun show_nat :: "nat \<Rightarrow> string" where
  "show_nat n =
     (if n < 10 then [''0123456789'' ! n]
      else show_nat (n div 10) @ [''0123456789'' ! (n mod 10)])"

declare show_nat.simps [simp del]

definition show_int :: "int \<Rightarrow> string" where
  "show_int i = (if i < 0 then CHR ''-'' # show_nat (nat (- i)) else show_nat (nat i))"

text \<open>
  \<open>BaseAPI.HandleError\<close>. Every caller modelled here passes a non-nil error, so the
  \<open>err != nil\<close> test of the source is true and its \<open>return nil\<close> is not a case of the model.
  The result is the \<open>Error()\<close> text of the error value that is returned.
\<close>

fun HandleError :: "k8s_error \<Rightarrow> string \<Rightarrow> string" where
  "HandleError (StatusError code reason msg) operation =
     operation @ '' failed: '' @ msg @ '' (Code: '' @ show_int (sint code)
       @ '', Reason: '' @ reason @ '')''"
| "HandleError (PlainError msg) operation = operation @ '' failed: '' @ msg"

text \<open>\<open>base.APIResponse\<close> and \<open>NewSuccessResponse\<close>.\<close>

record 'a APIResponse =
  Success :: bool
  Data :: "'a option"
  Error :: string

definition NewSuccessResponse :: "'a \<Rightarrow> 'a APIResponse" where
  "NewSuccessResponse data = \<lparr>Success = True, Data = Some data, Error = []\<rparr>"

text \<open>
  A dynamically typed Go value (\<open>interface{}\<close>, \<open>gin.H\<close>, \<open>map[string]interface{}\<close>) as
  it is handed to the JSON encoder. A slice is \<open>JList\<close>: the nil slice and the empty slice
  are both \<open>JList []\<close> (the encoder writes the former as \<open>null\<close>). A nil map or nil pointer is
  \<open>JNull\<close>. The order of the entries of a \<open>JMap\<close> is the order of the source text.
\<close>

datatype jvalue =
    JNull
  | JBool bool
  | JInt int
  | JStr string
  | JList "jvalue list"
  | JMap "(string \<times> jvalue) list"

definition jstrmap :: "strmap option \<Rightarrow> jvalue" where
  "jstrmap m = (case m of None \<Rightarrow> JNull
                | Some kvs \<Rightarrow> JMap (map (\<lambda>(k, v). (k, JStr v)) kvs))"

definition jbytesmap :: "(string \<times> bytes) list option \<Rightarrow> jvalue" where
  "jbytesmap m = (case m of None \<Rightarrow> JNull
                  | Some kvs \<Rightarrow> JMap (map (\<lambda>(k, v). (k, JStr v)) kvs))"

definition jstrings :: "string list \<Rightarrow> jvalue" where
  "jstrings xs = JList (map JStr xs)"

definition jint32 :: "int32 \<Rightarrow> jvalue" where
  "jint32 n = JInt (sint n)"

text \<open>
  What a handler does with a request: \<open>c.JSON(code, body)\<close>, or a panic (which the
  recovery middleware of \<open>gin.Default()\<close> turns into an empty 500 reply).
\<close>

datatype reply = Reply nat jvalue | Panicked

definition StatusOK :: nat where "StatusOK = 200"
definition StatusCreated :: nat where "StatusCreated = 201"
definition StatusBadRequest :: nat where "StatusBadRequest = 400"
definition StatusInternalServerError :: nat where "StatusInternalServerError = 500"

definition error_reply :: "nat \<Rightarrow> string \<Rightarrow> reply" where
  "error_reply code msg = Reply code (JMap [(''success'', JBool False), (''error'', JStr msg)])"

definition bad_request :: "string \<Rightarrow> reply" where
  "bad_request err = error_reply StatusBadRequest (''Invalid request format: '' @ err)"

definition server_error :: "string \<Rightarrow> reply" where
  "server_error err = error_reply StatusInternalServerError err"

section \<open>Remote objects\<close>

text \<open>
  The fields of the remote object kinds that the repository reads or writes. A Go
  pointer or nil-able map is an option; a slice is a list (\<open>nil\<close> is the empty list, except
  where the source tests a slice against \<open>nil\<close>). \<open>ObjectMeta\<close> is embedded in every kind,
  as in Go, so \<open>Name\<close>, \<open>Labels\<close> and the others apply to each of them. The nested
  \<open>Spec\<close> and \<open>Status\<close> structs are flattened into the fields of the kind.
\<close>

record ObjectMeta =
  Name :: string
  Namespace :: string
  Labels :: "strmap option"
  Annotations :: "strmap option"
  CreationTimestamp :: string
  ResourceVersion :: string

record Secret = ObjectMeta +
  sec_Type :: string
  sec_Data :: "(string \<times> bytes) list option"
  sec_StringData :: "strmap option"

record ConfigMap = ObjectMeta +
  cm_Data :: "strmap option"
  cm_BinaryData :: "(string \<times> bytes) list option"

record Volume =
  vol_Name :: string
  vol_ConfigMap :: "string option"
  vol_Secret :: "string option"

record EnvFromSource =
  ef_ConfigMapRef :: "string option"
  ef_SecretRef :: "string option"

record EnvVarSource =
  evs_ConfigMapKeyRef :: "string option"
  evs_SecretKeyRef :: "string option"

record EnvVar =
  ev_Name :: string
  ev_Value :: string
  ev_ValueFrom :: "EnvVarSource option"

record Container =
  ctr_Name :: string
  ctr_Image :: string
  ctr_Ports :: "int32 list"
  ctr_EnvFrom :: "EnvFromSource list"
  ctr_Env :: "EnvVar list"

record Pod = ObjectMeta +
  pod_Phase :: string
  pod_Volumes :: "Volume list"
  pod_Containers :: "Container list"

datatype IntOrString = IntVal int32 | StrVal string

fun intstr_String :: "IntOrString \<Rightarrow> string" where
  "intstr_String (IntVal n) = show_int (sint n)"
| "intstr_String (StrVal s) = s"

record ServicePort =
  sp_Name :: string
  sp_Protocol :: string
  sp_Port :: int32
  sp_TargetPort :: IntOrString
  sp_NodePort :: int32

record LoadBalancerIngress =
  lb_IP :: string
  lb_Hostname :: string

record Service = ObjectMeta +
  svc_Type :: string
  svc_ClusterIP :: string
  svc_ExternalIPs :: "string list option"
  svc_Ports :: "ServicePort list"
  svc_Selector :: "strmap option"
  svc_SessionAffinity :: string
  svc_LoadBalancer :: "LoadBalancerIngress list"

record EndpointAddress =
  ea_IP :: string
  ea_Hostname :: string
  ea_NodeName :: "string option"
  ea_TargetRef :: "string option"

record EndpointSubset =
  es_Addresses :: "EndpointAddress list"
  es_NotReadyAddresses :: "EndpointAddress list"

record Endpoints = ObjectMeta +
  ep_Subsets :: "EndpointSubset list"

record DeploymentCondition =
  dc_Type :: string
  dc_Status :: string
  dc_LastUpdateTime :: string
  dc_LastTransitionTime :: string
  dc_Reason :: string
  dc_Message :: string

record Deployment = ObjectMeta +
  dep_Replicas :: "int32 option"
  dep_MatchLabels :: "strmap option"
  dep_TemplateLabels :: "strmap option"
  dep_Containers :: "Container list"
  dep_StrategyType :: string
  dep_StatusReplicas :: int32
  dep_UpdatedReplicas :: int32
  dep_ReadyReplicas :: int32
  dep_AvailableReplicas :: int32
  dep_Conditions :: "DeploymentCondition list"

record IngressServiceBackend =
  isb_Name :: string
  isb_PortName :: string
  isb_PortNumber :: int32

record HTTPIngressPath =
  hp_Path :: string
  hp_PathType :: "string option"
  hp_BackendService :: "IngressServiceBackend option"

record IngressRule =
  ir_Host :: string
  ir_HTTP :: "HTTPIngressPath list option"

record IngressTLS =
  tls_Hosts :: "string list"
  tls_SecretName :: string

record Ingress = ObjectMeta +
  ing_IngressClassName :: "string option"
  ing_Rules :: "IngressRule list"
  ing_TLS :: "IngressTLS list"
  ing_LoadBalancer :: "LoadBalancerIngress list"

section \<open>The typed client\<close>

text \<open>
  \<open>*kubernetes.Clientset\<close>: one field for each remote call the repository makes, named
  after the accessor chain (\<open>CoreV1().Secrets(namespace).Get(ctx, name, \<dots>)\<close> is
  \<open>secrets_get cs namespace name\<close>). A call returns the remote object or the client's
  error; \<open>Delete\<close> returns only an error or nil.
\<close>

record clientset =
  secrets_list :: "string \<Rightarrow> k8s_error + Secret list"
  secrets_get :: "string \<Rightarrow> string \<Rightarrow> k8s_error + Secret"
  secrets_create :: "string \<Rightarrow> Secret \<Rightarrow> k8s_error + Secret"
  secrets_update :: "string \<Rightarrow> Secret \<Rightarrow> k8s_error + Secret"
  secrets_delete :: "string \<Rightarrow> string \<Rightarrow> k8s_error option"
  configmaps_list :: "string \<Rightarrow> k8s_error + ConfigMap list"
  configmaps_get :: "string \<Rightarrow> string \<Rightarrow> k8s_error + ConfigMap"
  configmaps_create :: "string \<Rightarrow> ConfigMap \<Rightarrow> k8s_error + ConfigMap"
  configmaps_update :: "string \<Rightarrow> ConfigMap \<Rightarrow> k8s_error + ConfigMap"
  configmaps_delete :: "string \<Rightarrow> string \<Rightarrow> k8s_error option"
  services_get :: "string \<Rightarrow> string \<Rightarrow> k8s_error + Service"
  services_create :: "string \<Rightarrow> Service \<Rightarrow> k8s_error + Service"
  services_update :: "string \<Rightarrow> Service \<Rightarrow> k8s_error + Service"
  services_delete :: "string \<Rightarrow> string \<Rightarrow> k8s_error option"
  endpoints_get :: "string \<Rightarrow> string \<Rightarrow> k8s_error + Endpoints"
  deployments_get :: "string \<Rightarrow> string \<Rightarrow> k8s_error + Deployment"
  deployments_create :: "string \<Rightarrow> Deployment \<Rightarrow> k8s_error + Deployment"
  deployments_update :: "string \<Rightarrow> Deployment \<Rightarrow> k8s_error + Deployment"
  deployments_delete :: "string \<Rightarrow> string \<Rightarrow> k8s_error option"
  ingresses_get :: "string \<Rightarrow> string \<Rightarrow> k8s_error + Ingress"
  ingresses_create :: "string \<Rightarrow> Ingress \<Rightarrow> k8s_error + Ingress"
  ingresses_update :: "string \<Rightarrow> Ingress \<Rightarrow> k8s_error + Ingress"
  ingresses_delete :: "string \<Rightarrow> string \<Rightarrow> k8s_error option"
  pods_list :: "string \<Rightarrow> k8s_error + Pod list"
  pods_delete :: "string \<Rightarrow> string \<Rightarrow> k8s_error option"

text \<open>
  The remote calls a function has made, in order: resource, verb, namespace, name and the
  object submitted (for \<open>Create\<close> and \<open>Update\<close>). Every function that reaches the client
  returns its calls beside its result.
\<close>

datatype payload =
    NoPayload
  | SecretPayload Secret
  | ConfigMapPayload ConfigMap
  | ServicePayload Service
  | DeploymentPayload Deployment
  | IngressPayload Ingress

datatype call = Call string string string string payload

section \<open>Secrets (package secret)\<close>

definition redact :: "Secret \<Rightarrow> Secret" where
  "redact secret = secret\<lparr>sec_Data := None, sec_StringData := None\<rparr>"

text \<open>\<open>SecretAPI.ListSecrets\<close>: the loop over \<open>secrets.Items\<close> clears both payloads.\<close>

definition ListSecrets :: "clientset \<Rightarrow> string \<Rightarrow> (string + Secret list) \<times> call list" where
  "ListSecrets cs namespace =
     (case secrets_list cs namespace of
        Inl err \<Rightarrow> Inl (HandleError err ''list secrets'')
      | Inr secrets \<Rightarrow> Inr (map redact secrets),
      [Call ''secrets'' ''list'' namespace [] NoPayload])"

text \<open>\<open>SecretAPI.GetSecret\<close>.\<close>

definition GetSecret :: "clientset \<Rightarrow> string \<Rightarrow> string \<Rightarrow> (string + Secret) \<times> call list" where
  "GetSecret cs namespace name =
     (case secrets_get cs namespace name of
        Inl err \<Rightarrow> Inl (HandleError err ''get secret'')
      | Inr secret \<Rightarrow> Inr (redact secret),
      [Call ''secrets'' ''get'' namespace name NoPayload])"

text \<open>\<open>SecretAPI.CreateSecret\<close>.\<close>

definition CreateSecret :: "clientset \<Rightarrow> string \<Rightarrow> Secret \<Rightarrow> (string + Secret) \<times> call list" where
  "CreateSecret cs namespace secret =
     (case secrets_create cs namespace secret of
        Inl err \<Rightarrow> Inl (HandleError err ''create secret'')
      | Inr result \<Rightarrow> Inr (redact result),
      [Call ''secrets'' ''create'' namespace (Name secret) (SecretPayload secret)])"

text \<open>\<open>SecretAPI.UpdateSecret\<close>.\<close>

definition UpdateSecret :: "clientset \<Rightarrow> string \<Rightarrow> Secret \<Rightarrow> (string + Secret) \<times> call list" where
  "UpdateSecret cs namespace secret =
     (case secrets_update cs namespace secret of
        Inl err \<Rightarrow> Inl (HandleError err ''update secret'')
      | Inr result \<Rightarrow> Inr (redact result),
      [Call ''secrets'' ''update'' namespace (Name secret) (SecretPayload secret)])"

text \<open>\<open>SecretAPI.DeleteSecret\<close>: \<open>None\<close> is the nil error.\<close>

definition DeleteSecret :: "clientset \<Rightarrow> string \<Rightarrow> string \<Rightarrow> string option \<times> call list" where
  "DeleteSecret cs namespace name =
     (case secrets_delete cs namespace name of
        Some err \<Rightarrow> Some (HandleError err ''delete secret'')
      | None \<Rightarrow> None,
      [Call ''secrets'' ''delete'' namespace name NoPayload])"

text \<open>\<open>Handler.ListSecrets\<close>.\<close>

definition secret_list_item :: "Secret \<Rightarrow> jvalue" where
  "secret_list_item secret =
     JMap [(''name'', JStr (Name secret)),
           (''namespace'', JStr (Namespace secret)),
           (''type'', JStr (sec_Type secret)),
           (''creationTime'', JStr (CreationTimestamp secret)),
           (''labels'', jstrmap (Labels secret))]"

definition Handler_ListSecrets :: "clientset \<Rightarrow> string \<Rightarrow> reply \<times> call list" where
  "Handler_ListSecrets cs namespace =
     (case ListSecrets cs namespace of
        (Inl err, calls) \<Rightarrow> (server_error err, calls)
      | (Inr secrets, calls) \<Rightarrow>
          (Reply StatusOK
             (JMap [(''success'', JBool True),
                    (''data'', JList (map secret_list_item secrets))]),
           calls))"

text \<open>\<open>Handler.GetSecret\<close>.\<close>

definition Handler_GetSecret :: "clientset \<Rightarrow> string \<Rightarrow> string \<Rightarrow> reply \<times> call list" where
  "Handler_GetSecret cs namespace name =
     (case GetSecret cs namespace name of
        (Inl err, calls) \<Rightarrow> (server_error err, calls)
      | (Inr secret, calls) \<Rightarrow>
          (Reply StatusOK
             (JMap [(''success'', JBool True),
                    (''data'',
                     JMap [(''name'', JStr (Name secret)),
                           (''namespace'', JStr (Namespace secret)),
                           (''type'', JStr (sec_Type secret)),
                           (''creationTime'', JStr (CreationTimestamp secret)),
                           (''labels'', jstrmap (Labels secret)),
                           (''annotations'', jstrmap (Annotations secret))])]),
           calls))"

text \<open>
  The request structs of the handlers. \<open>c.ShouldBindJSON\<close> belongs to the web framework:
  a handler takes its outcome, the decoded struct or the text of the binding error.
\<close>

record SecretCreateRequest =
  scr_Name :: string
  scr_Type :: string
  scr_StringData :: "strmap option"
  scr_Labels :: "strmap option"
  scr_Annotations :: "strmap option"

record SecretUpdateRequest =
  sur_StringData :: "strmap option"
  sur_Labels :: "strmap option"
  sur_Annotations :: "strmap option"

text \<open>\<open>Handler.CreateSecret\<close>. Fields the composite literal leaves out are zero.\<close>

definition Handler_CreateSecret ::
  "clientset \<Rightarrow> string + SecretCreateRequest \<Rightarrow> string \<Rightarrow> reply \<times> call list" where
  "Handler_CreateSecret cs bound namespace =
     (case bound of
        Inl err \<Rightarrow> (bad_request err, [])
      | Inr secretRequest \<Rightarrow>
          (let type = (if scr_Type secretRequest = [] then ''Opaque''
                       else scr_Type secretRequest);
               secret = \<lparr>Name = scr_Name secretRequest, Namespace = namespace,
                         Labels = scr_Labels secretRequest,
                         Annotations = scr_Annotations secretRequest,
                         CreationTimestamp = [], ResourceVersion = [],
                         sec_Type = type, sec_Data = None,
                         sec_StringData = scr_StringData secretRequest\<rparr>
           in case CreateSecret cs namespace secret of
                (Inl err, calls) \<Rightarrow> (server_error err, calls)
              | (Inr result, calls) \<Rightarrow>
                  (Reply StatusCreated
                     (JMap [(''success'', JBool True),
                            (''data'',
                             JMap [(''name'', JStr (Name result)),
                                   (''namespace'', JStr (Namespace result)),
                                   (''type'', JStr (sec_Type result))])]),
                   calls)))"

text \<open>
  \<open>Handler.UpdateSecret\<close>. \<open>existing.Data[k] = []byte(v)\<close> for each entry of the request's
  \<open>stringData\<close> is an update of the association list.
\<close>

definition overlay_string_data ::
  "strmap \<Rightarrow> (string \<times> bytes) list option \<Rightarrow> (string \<times> bytes) list" where
  "overlay_string_data stringData data =
     fold (\<lambda>(k, v) m. AList.update k v m) stringData
       (case data of None \<Rightarrow> [] | Some d \<Rightarrow> d)"

definition merge_secret :: "SecretUpdateRequest \<Rightarrow> Secret \<Rightarrow> Secret" where
  "merge_secret updateRequest existing =
     (let e1 = (case sur_StringData updateRequest of
                  None \<Rightarrow> existing
                | Some sd \<Rightarrow> existing\<lparr>sec_Data := Some (overlay_string_data sd (sec_Data existing))\<rparr>);
          e2 = (case sur_Labels updateRequest of
                  None \<Rightarrow> e1 | Some l \<Rightarrow> e1\<lparr>Labels := Some l\<rparr>);
          e3 = (case sur_Annotations updateRequest of
                  None \<Rightarrow> e2 | Some a \<Rightarrow> e2\<lparr>Annotations := Some a\<rparr>)
      in e3)"

definition Handler_UpdateSecret ::
  "clientset \<Rightarrow> string + SecretUpdateRequest \<Rightarrow> string \<Rightarrow> string \<Rightarrow> reply \<times> call list" where
  "Handler_UpdateSecret cs bound namespace name =
     (case bound of
        Inl err \<Rightarrow> (bad_request err, [])
      | Inr updateRequest \<Rightarrow>
          (case GetSecret cs namespace name of
             (Inl err, calls) \<Rightarrow> (server_error err, calls)
           | (Inr existing, calls) \<Rightarrow>
               (case UpdateSecret cs namespace (merge_secret updateRequest existing) of
                  (Inl err, calls') \<Rightarrow> (server_error err, calls @ calls')
                | (Inr result, calls') \<Rightarrow>
                    (Reply StatusOK
                       (JMap [(''success'', JBool True),
                              (''data'',
                               JMap [(''name'', JStr (Name result)),
                                     (''namespace'', JStr (Namespace result)),
                                     (''type'', JStr (sec_Type result)),
                                     (''status'', JStr ''updated'')])]),
                     calls @ calls'))))"

text \<open>\<open>Handler.DeleteSecret\<close>.\<close>

definition deleted_reply :: "string \<Rightarrow> reply" where
  "deleted_reply msg = Reply StatusOK (JMap [(''success'', JBool True), (''message'', JStr msg)])"

definition Handler_DeleteSecret :: "clientset \<Rightarrow> string \<Rightarrow> string \<Rightarrow> reply \<times> call list" where
  "Handler_DeleteSecret cs namespace name =
     (case DeleteSecret cs namespace name of
        (Some err, calls) \<Rightarrow> (server_error err, calls)
      | (None, calls) \<Rightarrow> (deleted_reply ''Secret deleted successfully'', calls))"

section \<open>Config maps (package configmap)\<close>

text \<open>\<open>ConfigMapAPI.ListConfigMaps\<close>.\<close>

definition ListConfigMaps :: "clientset \<Rightarrow> string \<Rightarrow> (string + ConfigMap list) \<times> call list" where
  "ListConfigMaps cs namespace =
     (case configmaps_list cs namespace of
        Inl err \<Rightarrow> Inl (HandleError err ''list configmaps'')
      | Inr configMaps \<Rightarrow> Inr configMaps,
      [Call ''configmaps'' ''list'' namespace [] NoPayload])"

text \<open>\<open>ConfigMapAPI.GetConfigMap\<close>.\<close>

definition GetConfigMap ::
  "clientset \<Rightarrow> string \<Rightarrow> string \<Rightarrow> (string + ConfigMap) \<times> call list" where
  "GetConfigMap cs namespace name =
     (case configmaps_get cs namespace name of
        Inl err \<Rightarrow> Inl (HandleError err ''get configmap'')
      | Inr configMap \<Rightarrow> Inr configMap,
      [Call ''configmaps'' ''get'' namespace name NoPayload])"

text \<open>\<open>ConfigMapAPI.CreateConfigMap\<close>.\<close>

definition CreateConfigMap ::
  "clientset \<Rightarrow> string \<Rightarrow> ConfigMap \<Rightarrow> (string + ConfigMap) \<times> call list" where
  "CreateConfigMap cs namespace configMap =
     (case configmaps_create cs namespace configMap of
        Inl err \<Rightarrow> Inl (HandleError err ''create configmap'')
      | Inr result \<Rightarrow> Inr result,
      [Call ''configmaps'' ''create'' namespace (Name configMap) (ConfigMapPayload configMap)])"

text \<open>\<open>ConfigMapAPI.UpdateConfigMap\<close>.\<close>

definition UpdateConfigMap ::
  "clientset \<Rightarrow> string \<Rightarrow> ConfigMap \<Rightarrow> (string + ConfigMap) \<times> call list" where
  "UpdateConfigMap cs namespace configMap =
     (case configmaps_update cs namespace configMap of
        Inl err \<Rightarrow> Inl (HandleError err ''update configmap'')
      | Inr result \<Rightarrow> Inr result,
      [Call ''configmaps'' ''update'' namespace (Name configMap) (ConfigMapPayload configMap)])"

text \<open>\<open>ConfigMapAPI.DeleteConfigMap\<close>.\<close>

definition DeleteConfigMap :: "clientset \<Rightarrow> string \<Rightarrow> string \<Rightarrow> string option \<times> call list" where
  "DeleteConfigMap cs namespace name =
     (case configmaps_delete cs namespace name of
        Some err \<Rightarrow> Some (HandleError err ''delete configmap'')
      | None \<Rightarrow> None,
      [Call ''configmaps'' ''delete'' namespace name NoPayload])"

text \<open>\<open>len\<close> of a map: the number of its entries, 0 for the nil map.\<close>

definition map_len :: "('k \<times> 'v) list option \<Rightarrow> int" where
  "map_len m = (case m of None \<Rightarrow> 0 | Some kvs \<Rightarrow> int (length kvs))"

text \<open>\<open>Handler.ListConfigMaps\<close>.\<close>

definition configmap_list_item :: "ConfigMap \<Rightarrow> jvalue" where
  "configmap_list_item cm =
     JMap [(''name'', JStr (Name cm)),
           (''namespace'', JStr (Namespace cm)),
           (''dataCount'', JInt (map_len (cm_Data cm))),
           (''creationTime'', JStr (CreationTimestamp cm)),
           (''labels'', jstrmap (Labels cm))]"

definition Handler_ListConfigMaps :: "clientset \<Rightarrow> string \<Rightarrow> reply \<times> call list" where
  "Handler_ListConfigMaps cs namespace =
     (case ListConfigMaps cs namespace of
        (Inl err, calls) \<Rightarrow> (server_error err, calls)
      | (Inr configMaps, calls) \<Rightarrow>
          (Reply StatusOK
             (JMap [(''success'', JBool True),
                    (''data'', JList (map configmap_list_item configMaps))]),
           calls))"

text \<open>\<open>Handler.GetConfigMap\<close>.\<close>

definition Handler_GetConfigMap :: "clientset \<Rightarrow> string \<Rightarrow> string \<Rightarrow> reply \<times> call list" where
  "Handler_GetConfigMap cs namespace name =
     (case GetConfigMap cs namespace name of
        (Inl err, calls) \<Rightarrow> (server_error err, calls)
      | (Inr configMap, calls) \<Rightarrow>
          (Reply StatusOK
             (JMap [(''success'', JBool True),
                    (''data'',
                     JMap [(''name'', JStr (Name configMap)),
                           (''namespace'', JStr (Namespace configMap)),
                           (''data'', jstrmap (cm_Data configMap)),
                           (''binaryData'', jbytesmap (cm_BinaryData configMap)),
                           (''creationTime'', JStr (CreationTimestamp configMap)),
                           (''labels'', jstrmap (Labels configMap)),
                           (''annotations'', jstrmap (Annotations configMap))])]),
           calls))"

record ConfigMapCreateRequest =
  ccr_Name :: string
  ccr_Data :: "strmap option"
  ccr_BinaryData :: "(string \<times> bytes) list option"
  ccr_Labels :: "strmap option"
  ccr_Annotations :: "strmap option"

record ConfigMapUpdateRequest =
  cur_Data :: "strmap option"
  cur_BinaryData :: "(string \<times> bytes) list option"
  cur_Labels :: "strmap option"
  cur_Annotations :: "strmap option"

text \<open>\<open>Handler.CreateConfigMap\<close>.\<close>

definition Handler_CreateConfigMap ::
  "clientset \<Rightarrow> string + ConfigMapCreateRequest \<Rightarrow> string \<Rightarrow> reply \<times> call list" where
  "Handler_CreateConfigMap cs bound namespace =
     (case bound of
        Inl err \<Rightarrow> (bad_request err, [])
      | Inr configMapRequest \<Rightarrow>
          (let configMap = \<lparr>Name = ccr_Name configMapRequest, Namespace = namespace,
                            Labels = ccr_Labels configMapRequest,
                            Annotations = ccr_Annotations configMapRequest,
                            CreationTimestamp = [], ResourceVersion = [],
                            cm_Data = ccr_Data configMapRequest,
                            cm_BinaryData = ccr_BinaryData configMapRequest\<rparr>
           in case CreateConfigMap cs namespace configMap of
                (Inl err, calls) \<Rightarrow> (server_error err, calls)
              | (Inr result, calls) \<Rightarrow>
                  (Reply StatusCreated
                     (JMap [(''success'', JBool True),
                            (''data'',
                             JMap [(''name'', JStr (Name result)),
                                   (''namespace'', JStr (Namespace result)),
                                   (''dataCount'', JInt (map_len (cm_Data result)))])]),
                   calls)))"

text \<open>\<open>Handler.UpdateConfigMap\<close>.\<close>

definition merge_configmap :: "ConfigMapUpdateRequest \<Rightarrow> ConfigMap \<Rightarrow> ConfigMap" where
  "merge_configmap updateRequest existing =
     (let e1 = (case cur_Data updateRequest of
                  None \<Rightarrow> existing | Some d \<Rightarrow> existing\<lparr>cm_Data := Some d\<rparr>);
          e2 = (case cur_BinaryData updateRequest of
                  None \<Rightarrow> e1 | Some b \<Rightarrow> e1\<lparr>cm_BinaryData := Some b\<rparr>);
          e3 = (case cur_Labels updateRequest of
                  None \<Rightarrow> e2 | Some l \<Rightarrow> e2\<lparr>Labels := Some l\<rparr>);
          e4 = (case cur_Annotations updateRequest of
                  None \<Rightarrow> e3 | Some a \<Rightarrow> e3\<lparr>Annotations := Some a\<rparr>)
      in e4)"

definition Handler_UpdateConfigMap ::
  "clientset \<Rightarrow> string + ConfigMapUpdateRequest \<Rightarrow> string \<Rightarrow> string \<Rightarrow> reply \<times> call list" where
  "Handler_UpdateConfigMap cs bound namespace name =
     (case bound of
        Inl err \<Rightarrow> (bad_request err, [])
      | Inr updateRequest \<Rightarrow>
          (case GetConfigMap cs namespace name of
             (Inl err, calls) \<Rightarrow> (server_error err, calls)
           | (Inr existing, calls) \<Rightarrow>
               (case UpdateConfigMap cs namespace (merge_configmap updateRequest existing) of
                  (Inl err, calls') \<Rightarrow> (server_error err, calls @ calls')
                | (Inr result, calls') \<Rightarrow>
                    (Reply StatusOK
                       (JMap [(''success'', JBool True),
                              (''data'',
                               JMap [(''name'', JStr (Name result)),
                                     (''namespace'', JStr (Namespace result)),
                                     (''dataCount'', JInt (map_len (cm_Data result))),
                                     (''status'', JStr ''updated'')])]),
                     calls @ calls'))))"

text \<open>\<open>Handler.DeleteConfigMap\<close>.\<close>

definition Handler_DeleteConfigMap :: "clientset \<Rightarrow> string \<Rightarrow> string \<Rightarrow> reply \<times> call list" where
  "Handler_DeleteConfigMap cs namespace name =
     (case DeleteConfigMap cs namespace name of
        (Some err, calls) \<Rightarrow> (server_error err, calls)
      | (None, calls) \<Rightarrow> (deleted_reply ''ConfigMap deleted successfully'', calls))"

section \<open>Services (package service)\<close>

text \<open>\<open>ServiceAPI.GetService\<close>.\<close>

definition GetService ::
  "clientset \<Rightarrow> string \<Rightarrow> string \<Rightarrow> (string + Service) \<times> call list" where
  "GetService cs namespace name =
     (case services_get cs namespace name of
        Inl err \<Rightarrow> Inl (HandleError err ''get service'')
      | Inr service \<Rightarrow> Inr service,
      [Call ''services'' ''get'' namespace name NoPayload])"

text \<open>\<open>ServiceAPI.CreateService\<close>.\<close>

definition CreateService ::
  "clientset \<Rightarrow> string \<Rightarrow> Service \<Rightarrow> (string + Service) \<times> call list" where
  "CreateService cs namespace service =
     (case services_create cs namespace service of
        Inl err \<Rightarrow> Inl (HandleError err ''create service'')
      | Inr result \<Rightarrow> Inr result,
      [Call ''services'' ''create'' namespace (Name service) (ServicePayload service)])"

text \<open>\<open>ServiceAPI.UpdateService\<close>.\<close>

definition UpdateService ::
  "clientset \<Rightarrow> string \<Rightarrow> Service \<Rightarrow> (string + Service) \<times> call list" where
  "UpdateService cs namespace service =
     (case services_update cs namespace service of
        Inl err \<Rightarrow> Inl (HandleError err ''update service'')
      | Inr result \<Rightarrow> Inr result,
      [Call ''services'' ''update'' namespace (Name service) (ServicePayload service)])"

text \<open>\<open>ServiceAPI.DeleteService\<close>.\<close>

definition DeleteService :: "clientset \<Rightarrow> string \<Rightarrow> string \<Rightarrow> string option \<times> call list" where
  "DeleteService cs namespace name =
     (case services_delete cs namespace name of
        Some err \<Rightarrow> Some (HandleError err ''delete service'')
      | None \<Rightarrow> None,
      [Call ''services'' ''delete'' namespace name NoPayload])"

text \<open>The helpers \<open>getServicePorts\<close> and \<open>getEndpointAddresses\<close>.\<close>

definition service_port_json :: "ServicePort \<Rightarrow> jvalue" where
  "service_port_json port =
     JMap [(''name'', JStr (sp_Name port)),
           (''protocol'', JStr (sp_Protocol port)),
           (''port'', jint32 (sp_Port port)),
           (''targetPort'', JStr (intstr_String (sp_TargetPort port))),
           (''nodePort'', jint32 (sp_NodePort port))]"

definition getServicePorts :: "ServicePort list \<Rightarrow> jvalue list" where
  "getServicePorts ports = map service_port_json ports"

definition joptstr :: "string option \<Rightarrow> jvalue" where
  "joptstr p = (case p of None \<Rightarrow> JNull | Some s \<Rightarrow> JStr s)"

definition endpoint_address_json :: "EndpointAddress \<Rightarrow> jvalue" where
  "endpoint_address_json addr =
     JMap [(''ip'', JStr (ea_IP addr)),
           (''hostname'', JStr (ea_Hostname addr)),
           (''nodeName'', joptstr (ea_NodeName addr)),
           (''targetRef'', joptstr (ea_TargetRef addr))]"

definition getEndpointAddresses :: "Endpoints \<Rightarrow> jvalue list" where
  "getEndpointAddresses endpoints =
     concat (map (\<lambda>subset. map endpoint_address_json (es_Addresses subset))
               (ep_Subsets endpoints))"

definition load_balancer_json :: "LoadBalancerIngress \<Rightarrow> jvalue" where
  "load_balancer_json ingress =
     JMap [(''ip'', JStr (lb_IP ingress)), (''hostname'', JStr (lb_Hostname ingress))]"

definition joptstrings :: "string list option \<Rightarrow> jvalue" where
  "joptstrings xs = (case xs of None \<Rightarrow> JList [] | Some ys \<Rightarrow> jstrings ys)"

text \<open>\<open>ServiceAPI.GetServiceStatus\<close>: two reads, the service and then its endpoints.\<close>

definition GetServiceStatus ::
  "clientset \<Rightarrow> string \<Rightarrow> string \<Rightarrow> (string + jvalue APIResponse) \<times> call list" where
  "GetServiceStatus cs namespace name =
     (case GetService cs namespace name of
        (Inl err, calls) \<Rightarrow> (Inl err, calls)
      | (Inr service, calls) \<Rightarrow>
          (case endpoints_get cs namespace name of
             Inl err \<Rightarrow> Inl (HandleError err ''get service endpoints'')
           | Inr endpoints \<Rightarrow>
               (let lbStatus = (if svc_Type service = ''LoadBalancer''
                                then map load_balancer_json (svc_LoadBalancer service)
                                else [])
                in Inr (NewSuccessResponse
                          (JMap [(''type'', JStr (svc_Type service)),
                                 (''clusterIP'', JStr (svc_ClusterIP service)),
                                 (''externalIPs'', joptstrings (svc_ExternalIPs service)),
                                 (''loadBalancer'', JList lbStatus),
                                 (''ports'', JList (getServicePorts (svc_Ports service))),
                                 (''endpoints'', JList (getEndpointAddresses endpoints)),
                                 (''selector'', jstrmap (svc_Selector service)),
                                 (''sessionAffinity'',
                                  JStr (svc_SessionAffinity service))]))),
           calls @ [Call ''endpoints'' ''get'' namespace name NoPayload]))"

text \<open>
  The JSON form of \<open>base.APIResponse\<close>: \<open>data\<close> and \<open>error\<close> carry \<open>omitempty\<close>.
\<close>

definition api_json :: "jvalue APIResponse \<Rightarrow> jvalue" where
  "api_json r =
     JMap ([(''success'', JBool (Success r))]
           @ (case Data r of None \<Rightarrow> [] | Some d \<Rightarrow> [(''data'', d)])
           @ (if Error r = [] then [] else [(''error'', JStr (Error r))]))"

record ServicePortRequest =
  spr_Name :: string
  spr_Port :: int32
  spr_TargetPort :: int32
  spr_NodePort :: int32
  spr_Protocol :: string

record ServiceCreateRequest =
  svcr_Name :: string
  svcr_Type :: string
  svcr_Ports :: "ServicePortRequest list"
  svcr_Selector :: "strmap option"
  svcr_Labels :: "strmap option"
  svcr_ExternalIPs :: "string list option"

record ServiceUpdateRequest =
  svur_Ports :: "ServicePortRequest list"
  svur_Selector :: "strmap option"
  svur_Labels :: "strmap option"
  svur_ExternalIPs :: "string list option"

text \<open>
  The body of the loop that both service handlers run over the requested ports:
  \<open>TCP\<close> when no protocol is given, the node port only when positive.
\<close>

definition to_service_port :: "ServicePortRequest \<Rightarrow> ServicePort" where
  "to_service_port p =
     \<lparr>sp_Name = spr_Name p,
      sp_Protocol = (if spr_Protocol p \<noteq> [] then spr_Protocol p else ''TCP''),
      sp_Port = spr_Port p,
      sp_TargetPort = IntVal (spr_TargetPort p),
      sp_NodePort = (if 0 < sint (spr_NodePort p) then spr_NodePort p else 0)\<rparr>"

text \<open>\<open>Handler.CreateService\<close>.\<close>

definition build_service :: "ServiceCreateRequest \<Rightarrow> string \<Rightarrow> Service" where
  "build_service serviceRequest namespace =
     \<lparr>Name = svcr_Name serviceRequest, Namespace = namespace,
      Labels = svcr_Labels serviceRequest, Annotations = None,
      CreationTimestamp = [], ResourceVersion = [],
      svc_Type = svcr_Type serviceRequest, svc_ClusterIP = [],
      svc_ExternalIPs = svcr_ExternalIPs serviceRequest,
      svc_Ports = map to_service_port (svcr_Ports serviceRequest),
      svc_Selector = svcr_Selector serviceRequest,
      svc_SessionAffinity = [], svc_LoadBalancer = []\<rparr>"

definition Handler_CreateService ::
  "clientset \<Rightarrow> string + ServiceCreateRequest \<Rightarrow> string \<Rightarrow> reply \<times> call list" where
  "Handler_CreateService cs bound namespace =
     (case bound of
        Inl err \<Rightarrow> (bad_request err, [])
      | Inr serviceRequest \<Rightarrow>
          (case CreateService cs namespace (build_service serviceRequest namespace) of
             (Inl err, calls) \<Rightarrow> (server_error err, calls)
           | (Inr result, calls) \<Rightarrow>
               (Reply StatusCreated
                  (JMap [(''success'', JBool True),
                         (''data'',
                          JMap [(''name'', JStr (Name result)),
                                (''namespace'', JStr (Namespace result)),
                                (''type'', JStr (svc_Type result)),
                                (''clusterIP'', JStr (svc_ClusterIP result))])]),
                calls)))"

text \<open>
  \<open>c.ShouldBindJSON(&serviceRequest)\<close> for the request struct of \<open>CreateService\<close>. The
  binder is the web framework's: it decodes the body with \<open>encoding/json\<close> and then checks
  the \<open>binding\<close> tags of the struct with its validator. Decoding leaves a field that is
  absent or \<open>null\<close> at its zero value, takes the last of several entries for one key,
  ignores unknown keys and fails on a value of the wrong JSON type (keys are compared
  exactly here). The validator checks \<open>required\<close> on the fields of the struct itself: a
  string must be non-empty, a slice or map must be non-nil. It does not descend into the
  elements of a slice unless the tag says \<open>dive\<close>, which no tag of the source does: the
  tags of the anonymous struct inside \<open>Ports\<close> are never looked at. The body is \<open>None\<close>
  when it is missing or is not JSON.
\<close>

definition json_field :: "(string \<times> jvalue) list \<Rightarrow> string \<Rightarrow> jvalue" where
  "json_field obj key = (case map_of (rev obj) key of None \<Rightarrow> JNull | Some v \<Rightarrow> v)"

definition type_error :: "string \<Rightarrow> string \<Rightarrow> string" where
  "type_error key ty =
     ''json: cannot unmarshal value into Go struct field '' @ key @ '' of type '' @ ty"

definition and_then :: "string + 'a \<Rightarrow> ('a \<Rightarrow> string + 'b) \<Rightarrow> string + 'b" where
  "and_then r f = (case r of Inl err \<Rightarrow> Inl err | Inr x \<Rightarrow> f x)"

fun decode_all :: "('a \<Rightarrow> string + 'b) \<Rightarrow> 'a list \<Rightarrow> string + 'b list" where
  "decode_all f [] = Inr []"
| "decode_all f (x # xs) =
     and_then (f x) (\<lambda>y. and_then (decode_all f xs) (\<lambda>ys. Inr (y # ys)))"

definition decode_string :: "string \<Rightarrow> jvalue \<Rightarrow> string + string" where
  "decode_string key v =
     (case v of JNull \<Rightarrow> Inr [] | JStr s \<Rightarrow> Inr s | _ \<Rightarrow> Inl (type_error key ''string''))"

definition decode_int32 :: "string \<Rightarrow> jvalue \<Rightarrow> string + int32" where
  "decode_int32 key v =
     (case v of
        JNull \<Rightarrow> Inr 0
      | JInt n \<Rightarrow> (if - 2147483648 \<le> n \<and> n \<le> 2147483647 then Inr (word_of_int n)
                  else Inl (type_error key ''int32''))
      | _ \<Rightarrow> Inl (type_error key ''int32''))"

definition decode_strmap :: "string \<Rightarrow> jvalue \<Rightarrow> string + strmap option" where
  "decode_strmap key v =
     (case v of
        JNull \<Rightarrow> Inr None
      | JMap kvs \<Rightarrow>
          and_then (decode_all (\<lambda>(k, x). and_then (decode_string key x) (\<lambda>s. Inr (k, s))) kvs)
            (\<lambda>m. Inr (Some m))
      | _ \<Rightarrow> Inl (type_error key ''map[string]string''))"

definition decode_strings :: "string \<Rightarrow> jvalue \<Rightarrow> string + string list option" where
  "decode_strings key v =
     (case v of
        JNull \<Rightarrow> Inr None
      | JList xs \<Rightarrow> and_then (decode_all (decode_string key) xs) (\<lambda>ys. Inr (Some ys))
      | _ \<Rightarrow> Inl (type_error key ''[]string''))"

definition decode_port :: "jvalue \<Rightarrow> string + ServicePortRequest" where
  "decode_port v =
     (case v of
        JNull \<Rightarrow> Inr \<lparr>spr_Name = [], spr_Port = 0, spr_TargetPort = 0, spr_NodePort = 0,
                       spr_Protocol = []\<rparr>
      | JMap obj \<Rightarrow>
          and_then (decode_string ''ports.name'' (json_field obj ''name'')) (\<lambda>name.
          and_then (decode_int32 ''ports.port'' (json_field obj ''port'')) (\<lambda>port.
          and_then (decode_int32 ''ports.targetPort'' (json_field obj ''targetPort''))
            (\<lambda>targetPort.
          and_then (decode_int32 ''ports.nodePort'' (json_field obj ''nodePort''))
            (\<lambda>nodePort.
          and_then (decode_string ''ports.protocol'' (json_field obj ''protocol''))
            (\<lambda>protocol.
          Inr \<lparr>spr_Name = name, spr_Port = port, spr_TargetPort = targetPort,
               spr_NodePort = nodePort, spr_Protocol = protocol\<rparr>)))))
      | _ \<Rightarrow> Inl (type_error ''ports'' ''struct''))"

definition decode_ports :: "jvalue \<Rightarrow> string + ServicePortRequest list option" where
  "decode_ports v =
     (case v of
        JNull \<Rightarrow> Inr None
      | JList xs \<Rightarrow> and_then (decode_all decode_port xs) (\<lambda>ps. Inr (Some ps))
      | _ \<Rightarrow> Inl (type_error ''ports'' ''[]struct''))"

definition required_error :: "string \<Rightarrow> string" where
  "required_error field =
     ''Key: '' @ field @ '' Error:Field validation for '' @ field
       @ '' failed on the required tag''"

definition join_lines :: "string list \<Rightarrow> string" where
  "join_lines xs = (case xs of [] \<Rightarrow> [] | y # ys \<Rightarrow> foldl (\<lambda>acc l. acc @ [CHR 0x0A] @ l) y ys)"

definition bind_ServiceCreateRequest :: "jvalue option \<Rightarrow> string + ServiceCreateRequest" where
  "bind_ServiceCreateRequest body =
     (case body of
        None \<Rightarrow> Inl ''EOF''
      | Some (JMap obj) \<Rightarrow>
          and_then (decode_string ''name'' (json_field obj ''name'')) (\<lambda>name.
          and_then (decode_string ''type'' (json_field obj ''type'')) (\<lambda>type.
          and_then (decode_ports (json_field obj ''ports'')) (\<lambda>ports.
          and_then (decode_strmap ''selector'' (json_field obj ''selector'')) (\<lambda>selector.
          and_then (decode_strmap ''labels'' (json_field obj ''labels'')) (\<lambda>labels.
          and_then (decode_strings ''externalIPs'' (json_field obj ''externalIPs''))
            (\<lambda>externalIPs.
          (let missing =
                 (if name = [] then [required_error ''Name''] else [])
                 @ (if type = [] then [required_error ''Type''] else [])
                 @ (if ports = None then [required_error ''Ports''] else [])
                 @ (if selector = None then [required_error ''Selector''] else [])
           in if missing \<noteq> [] then Inl (join_lines missing)
              else Inr \<lparr>svcr_Name = name, svcr_Type = type,
                        svcr_Ports = (case ports of None \<Rightarrow> [] | Some ps \<Rightarrow> ps),
                        svcr_Selector = selector, svcr_Labels = labels,
                        svcr_ExternalIPs = externalIPs\<rparr>)))))))
      | Some _ \<Rightarrow> Inl (type_error ''body'' ''struct''))"

text \<open>
  A create request whose only port entry has no \<open>port\<close>, the field that the source tags
  \<open>binding:"required"\<close>; and one with no \<open>name\<close>.
\<close>

definition portless_body :: jvalue where
  "portless_body =
     JMap [(''name'', JStr ''web''), (''type'', JStr ''ClusterIP''),
           (''ports'', JList [JMap [(''name'', JStr ''http'')]]),
           (''selector'', JMap [(''app'', JStr ''web'')])]"

definition nameless_body :: jvalue where
  "nameless_body =
     JMap [(''type'', JStr ''ClusterIP''),
           (''ports'', JList [JMap [(''name'', JStr ''http''), (''port'', JInt 80)]]),
           (''selector'', JMap [(''app'', JStr ''web'')])]"

text \<open>\<open>Handler.UpdateService\<close>.\<close>

definition merge_service :: "ServiceUpdateRequest \<Rightarrow> Service \<Rightarrow> Service" where
  "merge_service updateRequest existing =
     (let e1 = (if length (svur_Ports updateRequest) > 0
                then existing\<lparr>svc_Ports := map to_service_port (svur_Ports updateRequest)\<rparr>
                else existing);
          e2 = (case svur_Selector updateRequest of
                  None \<Rightarrow> e1 | Some s \<Rightarrow> e1\<lparr>svc_Selector := Some s\<rparr>);
          e3 = (case svur_Labels updateRequest of
                  None \<Rightarrow> e2 | Some l \<Rightarrow> e2\<lparr>Labels := Some l\<rparr>);
          e4 = (case svur_ExternalIPs updateRequest of
                  None \<Rightarrow> e3 | Some ips \<Rightarrow> e3\<lparr>svc_ExternalIPs := Some ips\<rparr>)
      in e4)"

definition Handler_UpdateService ::
  "clientset \<Rightarrow> string + ServiceUpdateRequest \<Rightarrow> string \<Rightarrow> string \<Rightarrow> reply \<times> call list" where
  "Handler_UpdateService cs bound namespace name =
     (case bound of
        Inl err \<Rightarrow> (bad_request err, [])
      | Inr updateRequest \<Rightarrow>
          (case GetService cs namespace name of
             (Inl err, calls) \<Rightarrow> (server_error err, calls)
           | (Inr existing, calls) \<Rightarrow>
               (case UpdateService cs namespace (merge_service updateRequest existing) of
                  (Inl err, calls') \<Rightarrow> (server_error err, calls @ calls')
                | (Inr result, calls') \<Rightarrow>
                    (Reply StatusOK
                       (JMap [(''success'', JBool True),
                              (''data'',
                               JMap [(''name'', JStr (Name result)),
                                     (''namespace'', JStr (Namespace result)),
                                     (''type'', JStr (svc_Type result)),
                                     (''clusterIP'', JStr (svc_ClusterIP result)),
                                     (''status'', JStr ''updated'')])]),
                     calls @ calls'))))"

text \<open>\<open>Handler.DeleteService\<close> and \<open>Handler.GetServiceStatus\<close>.\<close>

definition Handler_DeleteService :: "clientset \<Rightarrow> string \<Rightarrow> string \<Rightarrow> reply \<times> call list" where
  "Handler_DeleteService cs namespace name =
     (case DeleteService cs namespace name of
        (Some err, calls) \<Rightarrow> (server_error err, calls)
      | (None, calls) \<Rightarrow> (deleted_reply ''Service deleted successfully'', calls))"

definition Handler_GetServiceStatus ::
  "clientset \<Rightarrow> string \<Rightarrow> string \<Rightarrow> reply \<times> call list" where
  "Handler_GetServiceStatus cs namespace name =
     (case GetServiceStatus cs namespace name of
        (Inl err, calls) \<Rightarrow> (server_error err, calls)
      | (Inr status, calls) \<Rightarrow> (Reply StatusOK (api_json status), calls))"

section \<open>Deployments (package deployment)\<close>

text \<open>\<open>DeploymentAPI.GetDeployment\<close>.\<close>

definition GetDeployment ::
  "clientset \<Rightarrow> string \<Rightarrow> string \<Rightarrow> (string + Deployment) \<times> call list" where
  "GetDeployment cs namespace name =
     (case deployments_get cs namespace name of
        Inl err \<Rightarrow> Inl (HandleError err ''get deployment'')
      | Inr deployment \<Rightarrow> Inr deployment,
      [Call ''deployments'' ''get'' namespace name NoPayload])"

text \<open>A function of the source either returns or panics at a nil dereference.\<close>

datatype 'a run = Panics | Returns 'a

definition deployment_condition_json :: "DeploymentCondition \<Rightarrow> jvalue" where
  "deployment_condition_json condition =
     JMap [(''type'', JStr (dc_Type condition)),
           (''status'', JStr (dc_Status condition)),
           (''lastUpdateTime'', JStr (dc_LastUpdateTime condition)),
           (''lastTransitionTime'', JStr (dc_LastTransitionTime condition)),
           (''reason'', JStr (dc_Reason condition)),
           (''message'', JStr (dc_Message condition))]"

definition getDeploymentConditions :: "DeploymentCondition list \<Rightarrow> jvalue list" where
  "getDeploymentConditions conditions = map deployment_condition_json conditions"

text \<open>
  \<open>DeploymentAPI.GetDeploymentStatus\<close>: \<open>*deployment.Spec.Replicas\<close> is evaluated first
  when the status map is built, with no test of the pointer.
\<close>

definition GetDeploymentStatus ::
  "clientset \<Rightarrow> string \<Rightarrow> string \<Rightarrow> (string + jvalue APIResponse) run \<times> call list" where
  "GetDeploymentStatus cs namespace name =
     (case GetDeployment cs namespace name of
        (Inl err, calls) \<Rightarrow> (Returns (Inl err), calls)
      | (Inr deployment, calls) \<Rightarrow>
          (case dep_Replicas deployment of
             None \<Rightarrow> (Panics, calls)
           | Some desired \<Rightarrow>
               (Returns (Inr (NewSuccessResponse
                  (JMap [(''replicas'',
                          JMap [(''desired'', jint32 desired),
                                (''current'', jint32 (dep_StatusReplicas deployment)),
                                (''updated'', jint32 (dep_UpdatedReplicas deployment)),
                                (''ready'', jint32 (dep_ReadyReplicas deployment)),
                                (''available'', jint32 (dep_AvailableReplicas deployment))]),
                         (''conditions'',
                          JList (getDeploymentConditions (dep_Conditions deployment))),
                         (''strategy'', JStr (dep_StrategyType deployment)),
                         (''age'', JStr (CreationTimestamp deployment))]))),
                calls)))"

text \<open>\<open>DeploymentAPI.DeleteDeployment\<close>, \<open>CreateDeployment\<close> and \<open>UpdateDeployment\<close>.\<close>

definition DeleteDeployment ::
  "clientset \<Rightarrow> string \<Rightarrow> string \<Rightarrow> string option \<times> call list" where
  "DeleteDeployment cs namespace name =
     (case deployments_delete cs namespace name of
        Some err \<Rightarrow> Some (HandleError err ''delete deployment'')
      | None \<Rightarrow> None,
      [Call ''deployments'' ''delete'' namespace name NoPayload])"

definition CreateDeployment ::
  "clientset \<Rightarrow> string \<Rightarrow> Deployment \<Rightarrow> (string + Deployment) \<times> call list" where
  "CreateDeployment cs namespace deployment =
     (case deployments_create cs namespace deployment of
        Inl err \<Rightarrow> Inl (HandleError err ''create deployment'')
      | Inr result \<Rightarrow> Inr result,
      [Call ''deployments'' ''create'' namespace (Name deployment)
         (DeploymentPayload deployment)])"

definition UpdateDeployment ::
  "clientset \<Rightarrow> string \<Rightarrow> Deployment \<Rightarrow> (string + Deployment) \<times> call list" where
  "UpdateDeployment cs namespace deployment =
     (case deployments_update cs namespace deployment of
        Inl err \<Rightarrow> Inl (HandleError err ''update deployment'')
      | Inr result \<Rightarrow> Inr result,
      [Call ''deployments'' ''update'' namespace (Name deployment)
         (DeploymentPayload deployment)])"

record DeploymentCreateRequest =
  dcr_Name :: string
  dcr_Image :: string
  dcr_Replicas :: int32
  dcr_ContainerPort :: int32
  dcr_Labels :: "strmap option"
  dcr_Annotations :: "strmap option"
  dcr_EnvVars :: "strmap list"

record DeploymentUpdateRequest =
  dur_Image :: string
  dur_Replicas :: "int32 option"
  dur_Labels :: "strmap option"
  dur_Annotations :: "strmap option"
  dur_EnvVars :: "strmap list"

text \<open>\<open>env["name"]\<close> on a \<open>map[string]string\<close>: a missing key reads as the empty string.\<close>

definition map_get :: "strmap \<Rightarrow> string \<Rightarrow> string" where
  "map_get m k = (case map_of m k of None \<Rightarrow> [] | Some v \<Rightarrow> v)"

definition to_env_var :: "strmap \<Rightarrow> EnvVar" where
  "to_env_var env =
     \<lparr>ev_Name = map_get env ''name'', ev_Value = map_get env ''value'', ev_ValueFrom = None\<rparr>"

text \<open>\<open>Handler.CreateDeployment\<close>.\<close>

definition build_deployment :: "DeploymentCreateRequest \<Rightarrow> string \<Rightarrow> Deployment" where
  "build_deployment deploymentRequest namespace =
     \<lparr>Name = dcr_Name deploymentRequest, Namespace = namespace,
      Labels = dcr_Labels deploymentRequest,
      Annotations = dcr_Annotations deploymentRequest,
      CreationTimestamp = [], ResourceVersion = [],
      dep_Replicas = Some (dcr_Replicas deploymentRequest),
      dep_MatchLabels = Some [(''app'', dcr_Name deploymentRequest)],
      dep_TemplateLabels = Some [(''app'', dcr_Name deploymentRequest)],
      dep_Containers =
        [\<lparr>ctr_Name = dcr_Name deploymentRequest,
          ctr_Image = dcr_Image deploymentRequest,
          ctr_Ports = [dcr_ContainerPort deploymentRequest],
          ctr_EnvFrom = [],
          ctr_Env = (if length (dcr_EnvVars deploymentRequest) > 0
                     then map to_env_var (dcr_EnvVars deploymentRequest) else [])\<rparr>],
      dep_StrategyType = [],
      dep_StatusReplicas = 0, dep_UpdatedReplicas = 0, dep_ReadyReplicas = 0,
      dep_AvailableReplicas = 0, dep_Conditions = []\<rparr>"

definition Handler_CreateDeployment ::
  "clientset \<Rightarrow> string + DeploymentCreateRequest \<Rightarrow> string \<Rightarrow> reply \<times> call list" where
  "Handler_CreateDeployment cs bound namespace =
     (case bound of
        Inl err \<Rightarrow> (bad_request err, [])
      | Inr deploymentRequest \<Rightarrow>
          (case CreateDeployment cs namespace (build_deployment deploymentRequest namespace) of
             (Inl err, calls) \<Rightarrow> (server_error err, calls)
           | (Inr result, calls) \<Rightarrow>
               (Reply StatusCreated
                  (JMap [(''success'', JBool True),
                         (''data'',
                          JMap [(''name'', JStr (Name result)),
                                (''namespace'', JStr (Namespace result)),
                                (''status'', JStr ''created'')])]),
                calls)))"

text \<open>
  \<open>Handler.UpdateDeployment\<close>. \<open>Containers[0]\<close> is an index into a slice: on an empty
  slice it panics, which is \<open>None\<close> here.
\<close>

definition set_first_container ::
  "(Container \<Rightarrow> Container) \<Rightarrow> Deployment \<Rightarrow> Deployment option" where
  "set_first_container f existing =
     (case dep_Containers existing of
        [] \<Rightarrow> None
      | c # rest \<Rightarrow> Some (existing\<lparr>dep_Containers := f c # rest\<rparr>))"

definition merge_deployment :: "DeploymentUpdateRequest \<Rightarrow> Deployment \<Rightarrow> Deployment option" where
  "merge_deployment updateRequest existing =
     (case (if dur_Image updateRequest \<noteq> []
            then set_first_container (\<lambda>c. c\<lparr>ctr_Image := dur_Image updateRequest\<rparr>) existing
            else Some existing) of
        None \<Rightarrow> None
      | Some e1 \<Rightarrow>
          (let e2 = (case dur_Replicas updateRequest of
                       None \<Rightarrow> e1 | Some r \<Rightarrow> e1\<lparr>dep_Replicas := Some r\<rparr>);
               e3 = (case dur_Labels updateRequest of
                       None \<Rightarrow> e2 | Some l \<Rightarrow> e2\<lparr>Labels := Some l\<rparr>);
               e4 = (case dur_Annotations updateRequest of
                       None \<Rightarrow> e3 | Some a \<Rightarrow> e3\<lparr>Annotations := Some a\<rparr>)
           in if length (dur_EnvVars updateRequest) > 0
              then set_first_container
                     (\<lambda>c. c\<lparr>ctr_Env := map to_env_var (dur_EnvVars updateRequest)\<rparr>) e4
              else Some e4))"

definition Handler_UpdateDeployment ::
  "clientset \<Rightarrow> string + DeploymentUpdateRequest \<Rightarrow> string \<Rightarrow> string \<Rightarrow> reply \<times> call list" where
  "Handler_UpdateDeployment cs bound namespace name =
     (case bound of
        Inl err \<Rightarrow> (bad_request err, [])
      | Inr updateRequest \<Rightarrow>
          (case GetDeployment cs namespace name of
             (Inl err, calls) \<Rightarrow> (server_error err, calls)
           | (Inr existing, calls) \<Rightarrow>
               (case merge_deployment updateRequest existing of
                  None \<Rightarrow> (Panicked, calls)
                | Some merged \<Rightarrow>
                    (case UpdateDeployment cs namespace merged of
                       (Inl err, calls') \<Rightarrow> (server_error err, calls @ calls')
                     | (Inr result, calls') \<Rightarrow>
                         (Reply StatusOK
                            (JMap [(''success'', JBool True),
                                   (''data'',
                                    JMap [(''name'', JStr (Name result)),
                                          (''namespace'', JStr (Namespace result)),
                                          (''status'', JStr ''updated'')])]),
                          calls @ calls')))))"

text \<open>\<open>Handler.DeleteDeployment\<close>.\<close>

definition Handler_DeleteDeployment ::
  "clientset \<Rightarrow> string \<Rightarrow> string \<Rightarrow> reply \<times> call list" where
  "Handler_DeleteDeployment cs namespace name =
     (case DeleteDeployment cs namespace name of
        (Some err, calls) \<Rightarrow> (server_error err, calls)
      | (None, calls) \<Rightarrow> (deleted_reply ''Deployment deleted successfully'', calls))"

section \<open>Ingresses (package ingress)\<close>

text \<open>\<open>IngressAPI.GetIngress\<close>, \<open>CreateIngress\<close>, \<open>UpdateIngress\<close> and \<open>DeleteIngress\<close>.\<close>

definition GetIngress ::
  "clientset \<Rightarrow> string \<Rightarrow> string \<Rightarrow> (string + Ingress) \<times> call list" where
  "GetIngress cs namespace name =
     (case ingresses_get cs namespace name of
        Inl err \<Rightarrow> Inl (HandleError err ''get ingress'')
      | Inr ingress \<Rightarrow> Inr ingress,
      [Call ''ingresses'' ''get'' namespace name NoPayload])"

definition CreateIngress ::
  "clientset \<Rightarrow> string \<Rightarrow> Ingress \<Rightarrow> (string + Ingress) \<times> call list" where
  "CreateIngress cs namespace ingress =
     (case ingresses_create cs namespace ingress of
        Inl err \<Rightarrow> Inl (HandleError err ''create ingress'')
      | Inr result \<Rightarrow> Inr result,
      [Call ''ingresses'' ''create'' namespace (Name ingress) (IngressPayload ingress)])"

definition UpdateIngress ::
  "clientset \<Rightarrow> string \<Rightarrow> Ingress \<Rightarrow> (string + Ingress) \<times> call list" where
  "UpdateIngress cs namespace ingress =
     (case ingresses_update cs namespace ingress of
        Inl err \<Rightarrow> Inl (HandleError err ''update ingress'')
      | Inr result \<Rightarrow> Inr result,
      [Call ''ingresses'' ''update'' namespace (Name ingress) (IngressPayload ingress)])"

definition DeleteIngress :: "clientset \<Rightarrow> string \<Rightarrow> string \<Rightarrow> string option \<times> call list" where
  "DeleteIngress cs namespace name =
     (case ingresses_delete cs namespace name of
        Some err \<Rightarrow> Some (HandleError err ''delete ingress'')
      | None \<Rightarrow> None,
      [Call ''ingresses'' ''delete'' namespace name NoPayload])"

text \<open>
  The helper \<open>getIngressRules\<close>. \<open>path.Backend.Service.Name\<close> dereferences the service
  backend of a path with no test: a path whose backend is not a service makes the helper
  panic, which is \<open>None\<close> here.
\<close>

definition ingress_path_json :: "HTTPIngressPath \<Rightarrow> jvalue option" where
  "ingress_path_json path =
     (case hp_BackendService path of
        None \<Rightarrow> None
      | Some service \<Rightarrow>
          Some (JMap [(''path'', JStr (hp_Path path)),
                      (''pathType'', joptstr (hp_PathType path)),
                      (''backend'',
                       JMap [(''service'',
                              JMap [(''name'', JStr (isb_Name service)),
                                    (''port'',
                                     JMap [(''name'', JStr (isb_PortName service)),
                                           (''number'',
                                            jint32 (isb_PortNumber service))])])])]))"

definition ingress_rule_json :: "IngressRule \<Rightarrow> jvalue option" where
  "ingress_rule_json rule =
     (case (case ir_HTTP rule of None \<Rightarrow> Some []
            | Some paths \<Rightarrow> those (map ingress_path_json paths)) of
        None \<Rightarrow> None
      | Some paths \<Rightarrow> Some (JMap [(''host'', JStr (ir_Host rule)), (''paths'', JList paths)]))"

definition getIngressRules :: "IngressRule list \<Rightarrow> jvalue list option" where
  "getIngressRules rules = those (map ingress_rule_json rules)"

record IngressPathRequest =
  ipr_Path :: string
  ipr_PathType :: string
  ipr_ServiceName :: string
  ipr_ServicePort :: int32

record IngressRuleRequest =
  irr_Host :: string
  irr_Paths :: "IngressPathRequest list"

record IngressTLSRequest =
  itr_Hosts :: "string list"
  itr_SecretName :: string

record IngressCreateRequest =
  icr_Name :: string
  icr_ClassName :: string
  icr_Rules :: "IngressRuleRequest list"
  icr_TLS :: "IngressTLSRequest list"
  icr_Annotations :: "strmap option"
  icr_Labels :: "strmap option"

record IngressUpdateRequest =
  iur_ClassName :: string
  iur_Rules :: "IngressRuleRequest list"
  iur_TLS :: "IngressTLSRequest list"
  iur_Annotations :: "strmap option"
  iur_Labels :: "strmap option"

text \<open>The loops that both ingress handlers run over the requested rules and TLS entries.\<close>

definition to_ingress_path :: "IngressPathRequest \<Rightarrow> HTTPIngressPath" where
  "to_ingress_path path =
     \<lparr>hp_Path = ipr_Path path,
      hp_PathType = Some (ipr_PathType path),
      hp_BackendService = Some \<lparr>isb_Name = ipr_ServiceName path, isb_PortName = [],
                                 isb_PortNumber = ipr_ServicePort path\<rparr>\<rparr>"

definition to_ingress_rule :: "IngressRuleRequest \<Rightarrow> IngressRule" where
  "to_ingress_rule rule =
     \<lparr>ir_Host = irr_Host rule, ir_HTTP = Some (map to_ingress_path (irr_Paths rule))\<rparr>"

definition to_ingress_tls :: "IngressTLSRequest \<Rightarrow> IngressTLS" where
  "to_ingress_tls t = \<lparr>tls_Hosts = itr_Hosts t, tls_SecretName = itr_SecretName t\<rparr>"

text \<open>\<open>Handler.CreateIngress\<close>.\<close>

definition build_ingress :: "IngressCreateRequest \<Rightarrow> string \<Rightarrow> Ingress" where
  "build_ingress ingressRequest namespace =
     \<lparr>Name = icr_Name ingressRequest, Namespace = namespace,
      Labels = icr_Labels ingressRequest, Annotations = icr_Annotations ingressRequest,
      CreationTimestamp = [], ResourceVersion = [],
      ing_IngressClassName = Some (icr_ClassName ingressRequest),
      ing_Rules = map to_ingress_rule (icr_Rules ingressRequest),
      ing_TLS = map to_ingress_tls (icr_TLS ingressRequest),
      ing_LoadBalancer = []\<rparr>"

definition Handler_CreateIngress ::
  "clientset \<Rightarrow> string + IngressCreateRequest \<Rightarrow> string \<Rightarrow> reply \<times> call list" where
  "Handler_CreateIngress cs bound namespace =
     (case bound of
        Inl err \<Rightarrow> (bad_request err, [])
      | Inr ingressRequest \<Rightarrow>
          (case CreateIngress cs namespace (build_ingress ingressRequest namespace) of
             (Inl err, calls) \<Rightarrow> (server_error err, calls)
           | (Inr result, calls) \<Rightarrow>
               (case getIngressRules (ing_Rules result) of
                  None \<Rightarrow> (Panicked, calls)
                | Some rules \<Rightarrow>
                    (Reply StatusCreated
                       (JMap [(''success'', JBool True),
                              (''data'',
                               JMap [(''name'', JStr (Name result)),
                                     (''namespace'', JStr (Namespace result)),
                                     (''className'', joptstr (ing_IngressClassName result)),
                                     (''rules'', JList rules)])]),
                     calls))))"

text \<open>\<open>Handler.UpdateIngress\<close>.\<close>

definition merge_ingress :: "IngressUpdateRequest \<Rightarrow> Ingress \<Rightarrow> Ingress" where
  "merge_ingress updateRequest existing =
     (let e1 = (if iur_ClassName updateRequest \<noteq> []
                then existing\<lparr>ing_IngressClassName := Some (iur_ClassName updateRequest)\<rparr>
                else existing);
          e2 = (if length (iur_Rules updateRequest) > 0
                then e1\<lparr>ing_Rules := map to_ingress_rule (iur_Rules updateRequest)\<rparr>
                else e1);
          e3 = (if length (iur_TLS updateRequest) > 0
                then e2\<lparr>ing_TLS := map to_ingress_tls (iur_TLS updateRequest)\<rparr>
                else e2);
          e4 = (case iur_Labels updateRequest of
                  None \<Rightarrow> e3 | Some l \<Rightarrow> e3\<lparr>Labels := Some l\<rparr>);
          e5 = (case iur_Annotations updateRequest of
                  None \<Rightarrow> e4 | Some a \<Rightarrow> e4\<lparr>Annotations := Some a\<rparr>)
      in e5)"

definition Handler_UpdateIngress ::
  "clientset \<Rightarrow> string + IngressUpdateRequest \<Rightarrow> string \<Rightarrow> string \<Rightarrow> reply \<times> call list" where
  "Handler_UpdateIngress cs bound namespace name =
     (case bound of
        Inl err \<Rightarrow> (bad_request err, [])
      | Inr updateRequest \<Rightarrow>
          (case GetIngress cs namespace name of
             (Inl err, calls) \<Rightarrow> (server_error err, calls)
           | (Inr existing, calls) \<Rightarrow>
               (case UpdateIngress cs namespace (merge_ingress updateRequest existing) of
                  (Inl err, calls') \<Rightarrow> (server_error err, calls @ calls')
                | (Inr result, calls') \<Rightarrow>
                    (case getIngressRules (ing_Rules result) of
                       None \<Rightarrow> (Panicked, calls @ calls')
                     | Some rules \<Rightarrow>
                         (Reply StatusOK
                            (JMap [(''success'', JBool True),
                                   (''data'',
                                    JMap [(''name'', JStr (Name result)),
                                          (''namespace'', JStr (Namespace result)),
                                          (''className'',
                                           joptstr (ing_IngressClassName result)),
                                          (''rules'', JList rules),
                                          (''status'', JStr ''updated'')])]),
                          calls @ calls')))))"

text \<open>\<open>Handler.DeleteIngress\<close>.\<close>

definition Handler_DeleteIngress :: "clientset \<Rightarrow> string \<Rightarrow> string \<Rightarrow> reply \<times> call list" where
  "Handler_DeleteIngress cs namespace name =
     (case DeleteIngress cs namespace name of
        (Some err, calls) \<Rightarrow> (server_error err, calls)
      | (None, calls) \<Rightarrow> (deleted_reply ''Ingress deleted successfully'', calls))"

section \<open>Pods (package pod)\<close>

text \<open>\<open>PodAPI.DeletePod\<close> and \<open>Handler.DeletePod\<close>.\<close>

definition DeletePod :: "clientset \<Rightarrow> string \<Rightarrow> string \<Rightarrow> string option \<times> call list" where
  "DeletePod cs namespace name =
     (case pods_delete cs namespace name of
        Some err \<Rightarrow> Some (HandleError err ''delete pod'')
      | None \<Rightarrow> None,
      [Call ''pods'' ''delete'' namespace name NoPayload])"

definition Handler_DeletePod :: "clientset \<Rightarrow> string \<Rightarrow> string \<Rightarrow> reply \<times> call list" where
  "Handler_DeletePod cs namespace name =
     (case DeletePod cs namespace name of
        (Some err, calls) \<Rightarrow> (server_error err, calls)
      | (None, calls) \<Rightarrow> (deleted_reply ''Pod deleted successfully'', calls))"

section \<open>Usage lookup (packages configmap and secret)\<close>

text \<open>
  \<open>GetConfigMapUsage\<close> and \<open>GetSecretUsage\<close> are the same loops over the fetched pods; they
  differ in the field they read at each of the three reference points, which
  \<open>ref_kind\<close> selects.
\<close>

datatype ref_kind = OfConfigMap | OfSecret

text \<open>\<open>volume.ConfigMap != nil && volume.ConfigMap.Name == name\<close>, and the secret's twin.\<close>

fun volume_matches :: "ref_kind \<Rightarrow> string \<Rightarrow> Volume \<Rightarrow> bool" where
  "volume_matches OfConfigMap name volume = (vol_ConfigMap volume = Some name)"
| "volume_matches OfSecret name volume = (vol_Secret volume = Some name)"

fun envfrom_matches :: "ref_kind \<Rightarrow> string \<Rightarrow> EnvFromSource \<Rightarrow> bool" where
  "envfrom_matches OfConfigMap name env = (ef_ConfigMapRef env = Some name)"
| "envfrom_matches OfSecret name env = (ef_SecretRef env = Some name)"

fun env_matches :: "ref_kind \<Rightarrow> string \<Rightarrow> EnvVar \<Rightarrow> bool" where
  "env_matches OfConfigMap name env =
     (case ev_ValueFrom env of None \<Rightarrow> False
      | Some src \<Rightarrow> evs_ConfigMapKeyRef src = Some name)"
| "env_matches OfSecret name env =
     (case ev_ValueFrom env of None \<Rightarrow> False
      | Some src \<Rightarrow> evs_SecretKeyRef src = Some name)"

text \<open>
  \<open>usageDetails[k] = append(usageDetails[k], v)\<close> on a \<open>map[string][]string\<close>: a missing key
  reads as the nil slice.
\<close>

definition append_usage ::
  "(string \<rightharpoonup> string list) \<Rightarrow> string \<Rightarrow> string \<Rightarrow> (string \<rightharpoonup> string list)" where
  "append_usage m k v = m(k \<mapsto> (case m k of None \<Rightarrow> [] | Some xs \<Rightarrow> xs) @ [v])"

text \<open>The loop state of one pod: \<open>isUsed\<close> and \<open>usageDetails\<close>.\<close>

type_synonym usage_state = "bool \<times> (string \<rightharpoonup> string list)"

fun scan_volumes :: "ref_kind \<Rightarrow> string \<Rightarrow> usage_state \<Rightarrow> Volume list \<Rightarrow> usage_state" where
  "scan_volumes kind name st [] = st"
| "scan_volumes kind name (isUsed, usageDetails) (volume # volumes) =
     scan_volumes kind name
       (if volume_matches kind name volume
        then (True, append_usage usageDetails ''volumeMounts'' (vol_Name volume))
        else (isUsed, usageDetails))
       volumes"

fun scan_envFrom ::
  "ref_kind \<Rightarrow> string \<Rightarrow> Container \<Rightarrow> usage_state \<Rightarrow> EnvFromSource list \<Rightarrow> usage_state" where
  "scan_envFrom kind name container st [] = st"
| "scan_envFrom kind name container (isUsed, usageDetails) (env # envs) =
     scan_envFrom kind name container
       (if envfrom_matches kind name env
        then (True, append_usage usageDetails ''envFrom'' (ctr_Name container))
        else (isUsed, usageDetails))
       envs"

fun scan_env ::
  "ref_kind \<Rightarrow> string \<Rightarrow> Container \<Rightarrow> usage_state \<Rightarrow> EnvVar list \<Rightarrow> usage_state" where
  "scan_env kind name container st [] = st"
| "scan_env kind name container (isUsed, usageDetails) (env # envs) =
     scan_env kind name container
       (if env_matches kind name env
        then (True, append_usage usageDetails ''envVars''
                      (ctr_Name container @ '':'' @ ev_Name env))
        else (isUsed, usageDetails))
       envs"

fun scan_containers ::
  "ref_kind \<Rightarrow> string \<Rightarrow> usage_state \<Rightarrow> Container list \<Rightarrow> usage_state" where
  "scan_containers kind name st [] = st"
| "scan_containers kind name st (container # containers) =
     scan_containers kind name
       (scan_env kind name container
          (scan_envFrom kind name container st (ctr_EnvFrom container))
          (ctr_Env container))
       containers"

definition scan_pod :: "ref_kind \<Rightarrow> string \<Rightarrow> Pod \<Rightarrow> usage_state" where
  "scan_pod kind name pod =
     scan_containers kind name
       (scan_volumes kind name (False, Map.empty) (pod_Volumes pod))
       (pod_Containers pod)"

record UsageEntry =
  ue_name :: string
  ue_status :: string
  ue_usage :: "string \<rightharpoonup> string list"

fun scan_pods :: "ref_kind \<Rightarrow> string \<Rightarrow> UsageEntry list \<Rightarrow> Pod list \<Rightarrow> UsageEntry list" where
  "scan_pods kind name usingPods [] = usingPods"
| "scan_pods kind name usingPods (pod # pods) =
     scan_pods kind name
       (case scan_pod kind name pod of
          (True, usageDetails) \<Rightarrow>
            usingPods @ [\<lparr>ue_name = Name pod, ue_status = pod_Phase pod,
                           ue_usage = usageDetails\<rparr>]
        | (False, usageDetails) \<Rightarrow> usingPods)
       pods"

text \<open>
  The report; its first field is sent under the key \<open>podsUsingConfigMap\<close> or
  \<open>podsUsingSecret\<close>.
\<close>

record UsageReport =
  podsUsing :: "UsageEntry list"
  totalPods :: int

text \<open>\<open>ConfigMapAPI.GetConfigMapUsage\<close>.\<close>

definition GetConfigMapUsage ::
  "clientset \<Rightarrow> string \<Rightarrow> string \<Rightarrow> (string + UsageReport APIResponse) \<times> call list" where
  "GetConfigMapUsage cs namespace name =
     (case pods_list cs namespace of
        Inl err \<Rightarrow> Inl (HandleError err ''list pods for configmap usage'')
      | Inr pods \<Rightarrow>
          (let usingPods = scan_pods OfConfigMap name [] pods
           in Inr (NewSuccessResponse
                     \<lparr>podsUsing = usingPods, totalPods = int (length usingPods)\<rparr>)),
      [Call ''pods'' ''list'' namespace [] NoPayload])"

text \<open>\<open>SecretAPI.GetSecretUsage\<close>.\<close>

definition GetSecretUsage ::
  "clientset \<Rightarrow> string \<Rightarrow> string \<Rightarrow> (string + UsageReport APIResponse) \<times> call list" where
  "GetSecretUsage cs namespace name =
     (case pods_list cs namespace of
        Inl err \<Rightarrow> Inl (HandleError err ''list pods for secret usage'')
      | Inr pods \<Rightarrow>
          (let usingPods = scan_pods OfSecret name [] pods
           in Inr (NewSuccessResponse
                     \<lparr>podsUsing = usingPods, totalPods = int (length usingPods)\<rparr>)),
      [Call ''pods'' ''list'' namespace [] NoPayload])"

text \<open>
  The usage report as the specification words it. A pod references the target when one of
  its volumes, one of its containers' bulk imports or one of its containers' variables
  names it; the evidence of each kind is the list of the matching reference points, in the
  order of the pod's declaration, and a kind with no match has no key.
\<close>

definition references :: "ref_kind \<Rightarrow> string \<Rightarrow> Pod \<Rightarrow> bool" where
  "references kind name pod =
     ((\<exists>v \<in> set (pod_Volumes pod). volume_matches kind name v)
      \<or> (\<exists>c \<in> set (pod_Containers pod).
            (\<exists>e \<in> set (ctr_EnvFrom c). envfrom_matches kind name e)
            \<or> (\<exists>e \<in> set (ctr_Env c). env_matches kind name e)))"

definition volume_mounts :: "ref_kind \<Rightarrow> string \<Rightarrow> Pod \<Rightarrow> string list" where
  "volume_mounts kind name pod =
     map vol_Name (filter (volume_matches kind name) (pod_Volumes pod))"

definition env_from_of :: "ref_kind \<Rightarrow> string \<Rightarrow> Container \<Rightarrow> string list" where
  "env_from_of kind name c =
     map (\<lambda>e. ctr_Name c) (filter (envfrom_matches kind name) (ctr_EnvFrom c))"

definition env_vars_of :: "ref_kind \<Rightarrow> string \<Rightarrow> Container \<Rightarrow> string list" where
  "env_vars_of kind name c =
     map (\<lambda>e. ctr_Name c @ '':'' @ ev_Name e) (filter (env_matches kind name) (ctr_Env c))"

definition env_from :: "ref_kind \<Rightarrow> string \<Rightarrow> Pod \<Rightarrow> string list" where
  "env_from kind name pod = concat (map (env_from_of kind name) (pod_Containers pod))"

definition env_vars :: "ref_kind \<Rightarrow> string \<Rightarrow> Pod \<Rightarrow> string list" where
  "env_vars kind name pod = concat (map (env_vars_of kind name) (pod_Containers pod))"

definition evidence :: "string list \<Rightarrow> string list option" where
  "evidence xs = (if xs = [] then None else Some xs)"

definition details :: "string list \<Rightarrow> string list \<Rightarrow> string list \<Rightarrow> (string \<rightharpoonup> string list)" where
  "details vm ef ev =
     (\<lambda>k. if k = ''volumeMounts'' then evidence vm
          else if k = ''envFrom'' then evidence ef
          else if k = ''envVars'' then evidence ev
          else None)"

definition usage_entry :: "ref_kind \<Rightarrow> string \<Rightarrow> Pod \<Rightarrow> UsageEntry" where
  "usage_entry kind name pod =
     \<lparr>ue_name = Name pod, ue_status = pod_Phase pod,
      ue_usage = details (volume_mounts kind name pod) (env_from kind name pod)
                   (env_vars kind name pod)\<rparr>"

definition usage_report :: "ref_kind \<Rightarrow> string \<Rightarrow> Pod list \<Rightarrow> UsageReport" where
  "usage_report kind name pods =
     \<lparr>podsUsing = map (usage_entry kind name) (filter (references kind name) pods),
      totalPods = int (length (filter (references kind name) pods))\<rparr>"

section \<open>Namespaces (package namespace)\<close>

record NamespaceMetrics =
  podCount :: int
  status :: "string \<rightharpoonup> int"

text \<open>\<open>m[k]++\<close> on a Go \<open>map[string]int\<close>: a missing key reads as 0.\<close>

definition incr :: "(string \<rightharpoonup> int) \<Rightarrow> string \<Rightarrow> (string \<rightharpoonup> int)" where
  "incr m k = m(k \<mapsto> (case m k of None \<Rightarrow> 0 | Some c \<Rightarrow> c) + 1)"

fun count_phases :: "(string \<rightharpoonup> int) \<Rightarrow> Pod list \<Rightarrow> (string \<rightharpoonup> int)" where
  "count_phases m [] = m"
| "count_phases m (pod # pods) = count_phases (incr m (pod_Phase pod)) pods"

definition seeded_status :: "string \<rightharpoonup> int" where
  "seeded_status =
     [''running'' \<mapsto> 0, ''pending'' \<mapsto> 0, ''failed'' \<mapsto> 0, ''succeeded'' \<mapsto> 0]"

text \<open>\<open>NamespaceAPI.GetNamespaceMetrics\<close>.\<close>

definition GetNamespaceMetrics ::
  "clientset \<Rightarrow> string \<Rightarrow> (string + NamespaceMetrics APIResponse) \<times> call list" where
  "GetNamespaceMetrics cs name =
     (case pods_list cs name of
        Inl err \<Rightarrow> Inl (HandleError err ''get namespace metrics'')
      | Inr pods \<Rightarrow>
          Inr (NewSuccessResponse
                 \<lparr>podCount = int (length pods),
                  status = count_phases seeded_status pods\<rparr>),
      [Call ''pods'' ''list'' name [] NoPayload])"

text \<open>The phase strings the remote API defines for a pod (\<open>corev1.PodPhase\<close>).\<close>

definition pod_phases :: "string list" where
  "pod_phases = [''Pending'', ''Running'', ''Succeeded'', ''Failed'', ''Unknown'']"

section \<open>Routes (cmd/server/main.go)\<close>

text \<open>
  A route is a verb, a path pattern and the handler, named as in the source. The segments
  of a pattern are the pieces between slashes; a segment that starts with a colon is a
  parameter. A request path is the list of its segments. \<open>Group\<close> prefixes the patterns
  registered on it.
\<close>

type_synonym route = "string \<times> string \<times> string"

fun split_on :: "char \<Rightarrow> string \<Rightarrow> string \<Rightarrow> string list" where
  "split_on c piece [] = [piece]"
| "split_on c piece (x # xs) =
     (if x = c then piece # split_on c [] xs else split_on c (piece @ [x]) xs)"

definition segments :: "string \<Rightarrow> string list" where
  "segments p = filter (\<lambda>s. s \<noteq> []) (split_on (CHR ''/'') [] p)"

definition is_wildcard :: "string \<Rightarrow> bool" where
  "is_wildcard seg = (case seg of [] \<Rightarrow> False | c # rest \<Rightarrow> c = CHR '':'')"

definition seg_match :: "string \<Rightarrow> string \<Rightarrow> bool" where
  "seg_match pat s = (if is_wildcard pat then s \<noteq> [] else pat = s)"

definition route_matches :: "string list \<Rightarrow> string list \<Rightarrow> bool" where
  "route_matches pattern request = list_all2 seg_match pattern request"

definition Group :: "string \<Rightarrow> route list \<Rightarrow> route list" where
  "Group base routes = map (\<lambda>(verb, pattern, handler). (verb, base @ pattern, handler)) routes"

definition namespaces_group :: "route list" where
  "namespaces_group =
     Group ''/namespaces''
       [(''GET'', [], ''namespaceHandler.ListNamespaces''),
        (''GET'', ''/:name'', ''namespaceHandler.GetNamespace''),
        (''GET'', ''/:name/metrics'', ''namespaceHandler.GetNamespaceMetrics'')]"

definition pods_group :: "route list" where
  "pods_group =
     Group ''/pods''
       [(''GET'', ''/namespaces/:namespace'', ''podHandler.ListPods''),
        (''GET'', ''/namespaces/:namespace/:name'', ''podHandler.GetPod''),
        (''GET'', ''/namespaces/:namespace/:name/metrics'', ''podHandler.GetPodMetrics''),
        (''DELETE'', ''/namespaces/:namespace/:name'', ''podHandler.DeletePod'')]"

definition deployments_group :: "route list" where
  "deployments_group =
     Group ''/deployments''
       [(''GET'', ''/namespaces/:namespace'', ''deploymentHandler.ListDeployments''),
        (''POST'', ''/namespaces/:namespace'', ''deploymentHandler.CreateDeployment''),
        (''GET'', ''/namespaces/:namespace/:name'', ''deploymentHandler.GetDeployment''),
        (''PUT'', ''/namespaces/:namespace/:name'', ''deploymentHandler.UpdateDeployment''),
        (''GET'', ''/namespaces/:namespace/:name/status'',
         ''deploymentHandler.GetDeploymentStatus''),
        (''DELETE'', ''/namespaces/:namespace/:name'', ''deploymentHandler.DeleteDeployment''),
        (''PUT'', ''/namespaces/:namespace/:name/scale'',
         ''deploymentHandler.ScaleDeployment'')]"

definition services_group :: "route list" where
  "services_group =
     Group ''/services''
       [(''GET'', ''/namespaces/:namespace'', ''serviceHandler.ListServices''),
        (''POST'', ''/namespaces/:namespace'', ''serviceHandler.CreateService''),
        (''GET'', ''/namespaces/:namespace/:name'', ''serviceHandler.GetService''),
        (''PUT'', ''/namespaces/:namespace/:name'', ''serviceHandler.UpdateService''),
        (''DELETE'', ''/namespaces/:namespace/:name'', ''serviceHandler.DeleteService''),
        (''GET'', ''/namespaces/:namespace/:name/status'',
         ''serviceHandler.GetServiceStatus'')]"

definition configMaps_group :: "route list" where
  "configMaps_group =
     Group ''/configmaps''
       [(''GET'', ''/namespaces/:namespace'', ''configMapHandler.ListConfigMaps''),
        (''POST'', ''/namespaces/:namespace'', ''configMapHandler.CreateConfigMap''),
        (''GET'', ''/namespaces/:namespace/:name'', ''configMapHandler.GetConfigMap''),
        (''PUT'', ''/namespaces/:namespace/:name'', ''configMapHandler.UpdateConfigMap''),
        (''DELETE'', ''/namespaces/:namespace/:name'', ''configMapHandler.DeleteConfigMap''),
        (''GET'', ''/namespaces/:namespace/:name/usage'',
         ''configMapHandler.GetConfigMapUsage'')]"

definition secrets_group :: "route list" where
  "secrets_group =
     Group ''/secrets''
       [(''GET'', ''/namespaces/:namespace'', ''secretHandler.ListSecrets''),
        (''POST'', ''/namespaces/:namespace'', ''secretHandler.CreateSecret''),
        (''GET'', ''/namespaces/:namespace/:name'', ''secretHandler.GetSecret''),
        (''PUT'', ''/namespaces/:namespace/:name'', ''secretHandler.UpdateSecret''),
        (''DELETE'', ''/namespaces/:namespace/:name'', ''secretHandler.DeleteSecret'')]"

text \<open>The ingress group is nested under the namespaces group.\<close>

definition ingresses_group :: "route list" where
  "ingresses_group =
     Group ''/namespaces''
       (Group ''/:namespace/ingresses''
          [(''GET'', [], ''ingressHandler.ListIngresses''),
           (''POST'', [], ''ingressHandler.CreateIngress''),
           (''GET'', ''/:name'', ''ingressHandler.GetIngress''),
           (''PUT'', ''/:name'', ''ingressHandler.UpdateIngress''),
           (''DELETE'', ''/:name'', ''ingressHandler.DeleteIngress''),
           (''GET'', ''/:name/status'', ''ingressHandler.GetIngressStatus'')])"

text \<open>The registrations of \<open>setupRoutes\<close>, in the order of the source.\<close>

definition declared_routes :: "route list" where
  "declared_routes =
     [(''GET'', ''/health'', ''health'')]
     @ Group ''/api/v1''
        (namespaces_group @ pods_group @ deployments_group @ services_group
         @ configMaps_group @ secrets_group @ ingresses_group)"

text \<open>The registrations that come before the ingress group.\<close>

definition routes_before_ingresses :: "route list" where
  "routes_before_ingresses =
     [(''GET'', ''/health'', ''health'')]
     @ Group ''/api/v1''
        (namespaces_group @ pods_group @ deployments_group @ services_group
         @ configMaps_group @ secrets_group)"

text \<open>
  The router of the web framework keeps one tree of patterns for each verb, and checks
  every registration against it (\<open>addRoute\<close> of gin): it panics when the verb already has
  a handler for the pattern, and when the new pattern has a parameter at a place where a
  registered pattern of the same verb, equal up to that place, has a parameter of another
  name. A literal segment beside a parameter is accepted. A registered route is kept with
  the segments of its pattern; \<open>None\<close> is the panic.
\<close>

type_synonym entry = "string \<times> string list \<times> string"

fun wildcard_conflict :: "string list \<Rightarrow> string list \<Rightarrow> bool" where
  "wildcard_conflict (x # xs) (y # ys) =
     (if x = y then wildcard_conflict xs ys else is_wildcard x \<and> is_wildcard y)"
| "wildcard_conflict xs ys = False"

definition refused :: "string \<Rightarrow> string list \<Rightarrow> entry \<Rightarrow> bool" where
  "refused verb pattern e =
     (case e of (v, registered, handler) \<Rightarrow>
        v = verb \<and> (registered = pattern \<or> wildcard_conflict registered pattern))"

definition addEntry :: "entry list \<Rightarrow> entry \<Rightarrow> entry list option" where
  "addEntry router e =
     (case e of (verb, pattern, handler) \<Rightarrow>
        if list_ex (refused verb pattern) router then None else Some (router @ [e]))"

definition addRoute :: "entry list \<Rightarrow> route \<Rightarrow> entry list option" where
  "addRoute router r =
     (case r of (verb, pattern, handler) \<Rightarrow> addEntry router (verb, segments pattern, handler))"

fun register :: "entry list \<Rightarrow> route list \<Rightarrow> entry list option" where
  "register router [] = Some router"
| "register router (r # rs) =
     (case addRoute router r of None \<Rightarrow> None | Some router' \<Rightarrow> register router' rs)"

text \<open>\<open>setupRoutes\<close>: the registrations run in order on the empty router.\<close>

definition setupRoutes :: "entry list option" where
  "setupRoutes = register [] declared_routes"

text \<open>
  A request reaches the handler of the first registered route of its verb whose pattern
  matches.
\<close>

definition compiled :: "route list \<Rightarrow> entry list" where
  "compiled routes = map (\<lambda>(verb, pattern, handler). (verb, segments pattern, handler)) routes"

definition dispatch :: "entry list \<Rightarrow> string \<Rightarrow> string list \<Rightarrow> string option" where
  "dispatch router verb request =
     map_option (\<lambda>(v, pattern, handler). handler)
       (find (\<lambda>(v, pattern, handler). v = verb \<and> route_matches pattern request) router)"

section \<open>Start-up (pkg/kubernetes and cmd/server/main.go)\<close>

text \<open>
  The environment, the construction of the client set (\<open>kubernetes.NewForConfig\<close>), the
  loading of a configuration file (\<open>ClientConfig()\<close>) and the probe
  (\<open>Discovery().ServerVersion()\<close>) are the outside world: each is a parameter. An error is
  the text of its \<open>Error()\<close>.
\<close>

record rest_Config =
  Host :: string
  BearerToken :: string
  Insecure :: bool

text \<open>\<open>Client.IsHealthy\<close>: \<open>None\<close> is the nil error.\<close>

definition IsHealthy :: "('c \<Rightarrow> string + string) \<Rightarrow> 'c \<Rightarrow> string option" where
  "IsHealthy ServerVersion c =
     (case ServerVersion c of
        Inl err \<Rightarrow> Some (''failed to connect to Kubernetes API: '' @ err)
      | Inr version \<Rightarrow> None)"

text \<open>\<open>NewClient\<close>, the variant that reads the host and the bearer token.\<close>

definition NewClient_token ::
  "(string \<Rightarrow> string) \<Rightarrow> (rest_Config \<Rightarrow> string + 'c) \<Rightarrow> ('c \<Rightarrow> string + string)
     \<Rightarrow> string \<Rightarrow> string + 'c" where
  "NewClient_token Getenv NewForConfig ServerVersion kubeconfigPath =
     (let k8sHost = Getenv ''K8S_HOST''; k8sToken = Getenv ''K8S_TOKEN''
      in if k8sHost = [] then Inl ''K8S_HOST environment variable is required''
         else if k8sToken = [] then Inl ''K8S_TOKEN environment variable is required''
         else (case NewForConfig \<lparr>Host = k8sHost, BearerToken = k8sToken, Insecure = True\<rparr> of
                 Inl err \<Rightarrow> Inl (''failed to create client: '' @ err)
               | Inr clientset \<Rightarrow>
                   (case IsHealthy ServerVersion clientset of
                      Some err \<Rightarrow> Inl (''failed health check: '' @ err)
                    | None \<Rightarrow> Inr clientset)))"

text \<open>
  \<open>NewClient\<close>, the variant that loads a configuration file; the loader takes the path
  and the server override.
\<close>

definition NewClient_kubeconfig ::
  "(string \<Rightarrow> string) \<Rightarrow> (string \<Rightarrow> string \<Rightarrow> string + rest_Config)
     \<Rightarrow> (rest_Config \<Rightarrow> string + 'c) \<Rightarrow> ('c \<Rightarrow> string + string)
     \<Rightarrow> string \<Rightarrow> string + 'c" where
  "NewClient_kubeconfig Getenv ClientConfig NewForConfig ServerVersion kubeconfigPath =
     (case ClientConfig kubeconfigPath (Getenv ''K8S_HOST'') of
        Inl err \<Rightarrow> Inl (''failed to get client config: '' @ err)
      | Inr config \<Rightarrow>
          (case NewForConfig config of
             Inl err \<Rightarrow> Inl (''failed to create client: '' @ err)
           | Inr clientset \<Rightarrow>
               (case IsHealthy ServerVersion clientset of
                  Some err \<Rightarrow> Inl (''failed health check: '' @ err)
                | None \<Rightarrow> Inr clientset)))"

record Config =
  ServerAddress :: string
  KubeConfig :: string
  LogLevel :: string
  Environment :: string
  K8sHost :: string

text \<open>\<open>getEnv\<close> and \<open>os.Getenv\<close> over \<open>os.LookupEnv\<close>.\<close>

definition getEnv :: "(string \<Rightarrow> string option) \<Rightarrow> string \<Rightarrow> string \<Rightarrow> string" where
  "getEnv LookupEnv key defaultValue =
     (case LookupEnv key of Some v \<Rightarrow> v | None \<Rightarrow> defaultValue)"

definition os_Getenv :: "(string \<Rightarrow> string option) \<Rightarrow> string \<Rightarrow> string" where
  "os_Getenv LookupEnv key = (case LookupEnv key of Some v \<Rightarrow> v | None \<Rightarrow> [])"

text \<open>
  \<open>config.Load\<close>. The environment is read after \<open>godotenv.Load\<close>; the home directory,
  \<open>filepath.Join\<close>, \<open>filepath.Clean\<close> and \<open>os.Stat\<close> are parameters. \<open>Stat\<close> gives
  \<open>None\<close> for the nil error, otherwise whether \<open>os.IsNotExist\<close> holds of the error, and
  its text.
\<close>

definition Load ::
  "(string \<Rightarrow> string option) \<Rightarrow> string + string \<Rightarrow> (string list \<Rightarrow> string)
     \<Rightarrow> (string \<Rightarrow> string) \<Rightarrow> (string \<Rightarrow> (bool \<times> string) option) \<Rightarrow> string + Config" where
  "Load LookupEnv UserHomeDir Join Clean Stat =
     (case (if os_Getenv LookupEnv ''KUBECONFIG'' = []
            then (case UserHomeDir of
                    Inl err \<Rightarrow> Inl (''failed to get user home directory: '' @ err)
                  | Inr userHome \<Rightarrow> Inr (Join [userHome, ''.kube'', ''config'']))
            else Inr (os_Getenv LookupEnv ''KUBECONFIG'')) of
        Inl err \<Rightarrow> Inl err
      | Inr path \<Rightarrow>
          (let kubeconfig = Clean path
           in case Stat kubeconfig of
                Some (True, err) \<Rightarrow>
                  Inl (''kubeconfig file not found at '' @ kubeconfig @ '': '' @ err)
              | _ \<Rightarrow>
                  Inr \<lparr>ServerAddress = getEnv LookupEnv ''SERVER_ADDRESS'' '':8080'',
                       KubeConfig = kubeconfig,
                       LogLevel = getEnv LookupEnv ''LOG_LEVEL'' ''info'',
                       Environment = getEnv LookupEnv ''ENV'' ''development'',
                       K8sHost = getEnv LookupEnv ''K8S_HOST'' ''http://localhost:9000''\<rparr>))"

text \<open>
  \<open>main\<close> up to the start of the server. \<open>logger.Fatalf\<close> ends the process; a panic of
  \<open>setupRoutes\<close> is not recovered and ends it too. \<open>ListenAndServe\<close> is a parameter: it
  gives \<open>None\<close> while the server listens on the address, or the error it returns, which
  is fatal (the source treats \<open>http.ErrServerClosed\<close> apart, which only follows a
  shutdown). The signal wait and the shutdown that follow are left out.
\<close>

datatype 'c process = Fatal string | Panic | Listening string 'c

definition main_start ::
  "string + Config \<Rightarrow> (string \<Rightarrow> string + 'c) \<Rightarrow> (string \<Rightarrow> string option)
     \<Rightarrow> 'c process" where
  "main_start loaded NewClient ListenAndServe =
     (case loaded of
        Inl err \<Rightarrow> Fatal (''Failed to load configuration: '' @ err)
      | Inr cfg \<Rightarrow>
          (case NewClient (KubeConfig cfg) of
             Inl err \<Rightarrow> Fatal (''Failed to create Kubernetes client: '' @ err)
           | Inr k8sClient \<Rightarrow>
               (case setupRoutes of
                  None \<Rightarrow> Panic
                | Some router \<Rightarrow>
                    (case ListenAndServe (ServerAddress cfg) of
                       Some err \<Rightarrow> Fatal (''Failed to start server: '' @ err)
                     | None \<Rightarrow> Listening (ServerAddress cfg) k8sClient))))"

text \<open>
  A client none of whose calls succeeds; the examples below replace the calls they need.
\<close>

definition unreachable :: k8s_error where
  "unreachable = PlainError ''connection refused''"

definition no_cluster :: clientset where
  "no_cluster =
     \<lparr>secrets_list = (\<lambda>_. Inl unreachable), secrets_get = (\<lambda>_ _. Inl unreachable),
      secrets_create = (\<lambda>_ _. Inl unreachable), secrets_update = (\<lambda>_ _. Inl unreachable),
      secrets_delete = (\<lambda>_ _. Some unreachable),
      configmaps_list = (\<lambda>_. Inl unreachable), configmaps_get = (\<lambda>_ _. Inl unreachable),
      configmaps_create = (\<lambda>_ _. Inl unreachable),
      configmaps_update = (\<lambda>_ _. Inl unreachable),
      configmaps_delete = (\<lambda>_ _. Some unreachable),
      services_get = (\<lambda>_ _. Inl unreachable), services_create = (\<lambda>_ _. Inl unreachable),
      services_update = (\<lambda>_ _. Inl unreachable), services_delete = (\<lambda>_ _. Some unreachable),
      endpoints_get = (\<lambda>_ _. Inl unreachable),
      deployments_get = (\<lambda>_ _. Inl unreachable),
      deployments_create = (\<lambda>_ _. Inl unreachable),
      deployments_update = (\<lambda>_ _. Inl unreachable),
      deployments_delete = (\<lambda>_ _. Some unreachable),
      ingresses_get = (\<lambda>_ _. Inl unreachable), ingresses_create = (\<lambda>_ _. Inl unreachable),
      ingresses_update = (\<lambda>_ _. Inl unreachable),
      ingresses_delete = (\<lambda>_ _. Some unreachable),
      pods_list = (\<lambda>_. Inl unreachable), pods_delete = (\<lambda>_ _. Some unreachable)\<rparr>"

definition mk_pod :: "string \<Rightarrow> string \<Rightarrow> Volume list \<Rightarrow> Container list \<Rightarrow> Pod" where
  "mk_pod name phase volumes containers =
     \<lparr>Name = name, Namespace = ''default'', Labels = None, Annotations = None,
      CreationTimestamp = ''2024-01-01T00:00:00Z'', ResourceVersion = ''1'',
      pod_Phase = phase, pod_Volumes = volumes, pod_Containers = containers\<rparr>"

text \<open>Two pods for the examples.\<close>

definition web_pod :: Pod where
  "web_pod = mk_pod ''web'' ''Running''
     [\<lparr>vol_Name = ''cfg'', vol_ConfigMap = Some ''app-config'', vol_Secret = None\<rparr>,
      \<lparr>vol_Name = ''creds'', vol_ConfigMap = None, vol_Secret = Some ''app-credentials''\<rparr>]
     [\<lparr>ctr_Name = ''app'', ctr_Image = ''nginx'', ctr_Ports = [],
       ctr_EnvFrom = [\<lparr>ef_ConfigMapRef = Some ''app-config'', ef_SecretRef = None\<rparr>],
       ctr_Env = [\<lparr>ev_Name = ''DB_HOST'', ev_Value = [],
                   ev_ValueFrom = Some \<lparr>evs_ConfigMapKeyRef = Some ''app-config'',
                                         evs_SecretKeyRef = None\<rparr>\<rparr>,
                  \<lparr>ev_Name = ''MODE'', ev_Value = ''prod'', ev_ValueFrom = None\<rparr>]\<rparr>]"

definition idle_pod :: Pod where
  "idle_pod = mk_pod ''idle'' ''Pending'' []
     [\<lparr>ctr_Name = ''sleep'', ctr_Image = ''busybox'', ctr_Ports = [],
       ctr_EnvFrom = [], ctr_Env = []\<rparr>]"

text \<open>A small remote cluster for the examples.\<close>

definition app_credentials :: Secret where
  "app_credentials =
     \<lparr>Name = ''app-credentials'', Namespace = ''default'',
      Labels = Some [(''app'', ''myapp'')], Annotations = None,
      CreationTimestamp = ''2024-01-01T00:00:00Z'', ResourceVersion = ''7'',
      sec_Type = ''Opaque'', sec_Data = Some [(''password'', ''secretpassword123'')],
      sec_StringData = None\<rparr>"

definition app_config :: ConfigMap where
  "app_config =
     \<lparr>Name = ''app-config'', Namespace = ''default'',
      Labels = None, Annotations = None,
      CreationTimestamp = ''2024-01-01T00:00:00Z'', ResourceVersion = ''3'',
      cm_Data = Some [(''log.level'', ''INFO'')], cm_BinaryData = None\<rparr>"

definition demo_cluster :: clientset where
  "demo_cluster =
     no_cluster\<lparr>secrets_list := (\<lambda>_. Inr [app_credentials]),
                secrets_get := (\<lambda>_ _. Inr app_credentials),
                configmaps_list := (\<lambda>_. Inr [app_config]),
                configmaps_get := (\<lambda>_ _. Inr app_config)\<rparr>"

definition web_deployment :: "int32 option \<Rightarrow> Deployment" where
  "web_deployment replicas =
     \<lparr>Name = ''web'', Namespace = ''default'', Labels = None, Annotations = None,
      CreationTimestamp = ''2024-01-01T00:00:00Z'', ResourceVersion = ''12'',
      dep_Replicas = replicas, dep_MatchLabels = Some [(''app'', ''web'')],
      dep_TemplateLabels = Some [(''app'', ''web'')],
      dep_Containers = [\<lparr>ctr_Name = ''web'', ctr_Image = ''nginx:1.25'', ctr_Ports = [80],
                         ctr_EnvFrom = [], ctr_Env = []\<rparr>],
      dep_StrategyType = ''RollingUpdate'',
      dep_StatusReplicas = 3, dep_UpdatedReplicas = 3, dep_ReadyReplicas = 2,
      dep_AvailableReplicas = 2, dep_Conditions = []\<rparr>"

definition not_found :: k8s_error where
  "not_found = StatusError 404 ''NotFound'' ''configmaps \"app-config\" not found''"

text \<open>The request structs bound from the body \<open>{}\<close>: every field is zero.\<close>

definition empty_secret_update :: SecretUpdateRequest where
  "empty_secret_update = \<lparr>sur_StringData = None, sur_Labels = None, sur_Annotations = None\<rparr>"

definition empty_configmap_update :: ConfigMapUpdateRequest where
  "empty_configmap_update =
     \<lparr>cur_Data = None, cur_BinaryData = None, cur_Labels = None, cur_Annotations = None\<rparr>"

definition empty_service_update :: ServiceUpdateRequest where
  "empty_service_update =
     \<lparr>svur_Ports = [], svur_Selector = None, svur_Labels = None, svur_ExternalIPs = None\<rparr>"

definition empty_deployment_update :: DeploymentUpdateRequest where
  "empty_deployment_update =
     \<lparr>dur_Image = [], dur_Replicas = None, dur_Labels = None, dur_Annotations = None,
      dur_EnvVars = []\<rparr>"

definition empty_ingress_update :: IngressUpdateRequest where
  "empty_ingress_update =
     \<lparr>iur_ClassName = [], iur_Rules = [], iur_TLS = [], iur_Annotations = None,
      iur_Labels = None\<rparr>"

text \<open>The service of the test script, with a two-entry selector.\<close>

definition nginx_request :: ServiceCreateRequest where
  "nginx_request =
     \<lparr>svcr_Name = ''nginx-service'', svcr_Type = ''ClusterIP'',
      svcr_Ports = [\<lparr>spr_Name = ''http'', spr_Port = 80, spr_TargetPort = 8080,
                      spr_NodePort = 0, spr_Protocol = ''TCP''\<rparr>],
      svcr_Selector = Some [(''app'', ''nginx''), (''tier'', ''web'')],
      svcr_Labels = Some [(''app'', ''nginx'')], svcr_ExternalIPs = None\<rparr>"

definition nginx_cluster :: clientset where
  "nginx_cluster =
     no_cluster
       \<lparr>services_create := (\<lambda>namespace service. Inr (service\<lparr>svc_ClusterIP := ''10.0.0.7''\<rparr>)),
        services_get := (\<lambda>namespace name.
           Inr ((build_service nginx_request namespace)\<lparr>svc_ClusterIP := ''10.0.0.7'',
                  ResourceVersion := ''41''\<rparr>)),
        endpoints_get := (\<lambda>namespace name.
           Inr \<lparr>Name = name, Namespace = namespace, Labels = None, Annotations = None,
                CreationTimestamp = ''2024-01-01T00:00:00Z'', ResourceVersion = ''42'',
                ep_Subsets = []\<rparr>)\<rparr>"

text \<open>An environment with a host and no token, and a remote API that answers.\<close>

definition host_only :: "string \<Rightarrow> string" where
  "host_only key = (if key = ''K8S_HOST'' then ''https://10.0.0.1:6443'' else [])"

definition host_and_token :: "string \<Rightarrow> string" where
  "host_and_token key =
     (if key = ''K8S_HOST'' then ''https://10.0.0.1:6443''
      else if key = ''K8S_TOKEN'' then ''s3cr3t'' else [])"

definition demo_config :: Config where
  "demo_config =
     \<lparr>ServerAddress = '':8080'', KubeConfig = ''/home/dev/.kube/config'',
      LogLevel = ''info'', Environment = ''development'',
      K8sHost = ''http://localhost:9000''\<rparr>"

section \<open>Properties\<close>

subsection \<open>Value payloads in list and get replies\<close>

text \<open>
  C1 as stated fails for config maps. The get handler of a config map whose data is
  populated sends the values: the reply below holds the entry \<open>log.level = INFO\<close> of the
  remote object under the key \<open>data\<close>.
\<close>

theorem configmap_get_returns_values_counterexample:
  "fst (Handler_GetConfigMap demo_cluster ''default'' ''app-config'')
     = Reply 200
         (JMap [(''success'', JBool True),
                (''data'',
                 JMap [(''name'', JStr ''app-config''),
                       (''namespace'', JStr ''default''),
                       (''data'', JMap [(''log.level'', JStr ''INFO'')]),
                       (''binaryData'', JNull),
                       (''creationTime'', JStr ''2024-01-01T00:00:00Z''),
                       (''labels'', JNull),
                       (''annotations'', JNull)])])"
  by (simp add: Handler_GetConfigMap_def GetConfigMap_def demo_cluster_def app_config_def
      StatusOK_def jstrmap_def jbytesmap_def)

lemma redact_payloads:
  "sec_Data (redact s) = None" "sec_StringData (redact s) = None"
  "Name (redact s) = Name s" "Namespace (redact s) = Namespace s"
  "Labels (redact s) = Labels s" "Annotations (redact s) = Annotations s"
  "CreationTimestamp (redact s) = CreationTimestamp s" "sec_Type (redact s) = sec_Type s"
  "redact (redact s) = redact s"
  by (simp_all add: redact_def)

lemma secret_list_item_redact: "secret_list_item (redact s) = secret_list_item s"
  by (simp add: secret_list_item_def redact_payloads)

text \<open>
  C1 (as amended). For every secret list and get operation (\<open>ListSecrets\<close>, \<open>GetSecret\<close>
  and their handlers) and every remote object, also one whose values are populated, the
  result holds no value payload: the API result has neither the byte-valued nor the
  string-keyed data map, and the handler's reply is the reply it gives for the same
  remote objects with both maps removed. For config maps the list handler sends the number
  of data entries only, while \<open>ListConfigMaps\<close> and \<open>GetConfigMap\<close> return the remote
  objects as fetched and the get handler sends the \<open>data\<close> and \<open>binaryData\<close> maps.
\<close>

theorem secret_values_redacted:
  "(secrets_list cs namespace = Inr secrets \<longrightarrow>
      fst (ListSecrets cs namespace) = Inr (map redact secrets)
      \<and> (\<forall>s \<in> set (map redact secrets). sec_Data s = None \<and> sec_StringData s = None)
      \<and> fst (Handler_ListSecrets cs namespace)
          = fst (Handler_ListSecrets (cs\<lparr>secrets_list := (\<lambda>_. Inr (map redact secrets))\<rparr>)
                   namespace))
   \<and> (secrets_get cs namespace name = Inr secret \<longrightarrow>
      fst (GetSecret cs namespace name) = Inr (redact secret)
      \<and> sec_Data (redact secret) = None \<and> sec_StringData (redact secret) = None
      \<and> fst (Handler_GetSecret cs namespace name)
          = fst (Handler_GetSecret (cs\<lparr>secrets_get := (\<lambda>_ _. Inr (redact secret))\<rparr>)
                   namespace name))
   \<and> (configmaps_list cs namespace = Inr configMaps \<longrightarrow>
      fst (ListConfigMaps cs namespace) = Inr configMaps
      \<and> fst (Handler_ListConfigMaps cs namespace)
          = Reply StatusOK
              (JMap [(''success'', JBool True),
                     (''data'',
                      JList (map (\<lambda>cm. JMap [(''name'', JStr (Name cm)),
                                              (''namespace'', JStr (Namespace cm)),
                                              (''dataCount'', JInt (map_len (cm_Data cm))),
                                              (''creationTime'', JStr (CreationTimestamp cm)),
                                              (''labels'', jstrmap (Labels cm))])
                               configMaps))]))
   \<and> (configmaps_get cs namespace name = Inr configMap \<longrightarrow>
      fst (GetConfigMap cs namespace name) = Inr configMap
      \<and> (\<exists>fields. fst (Handler_GetConfigMap cs namespace name)
                      = Reply StatusOK (JMap [(''success'', JBool True),
                                              (''data'', JMap fields)])
            \<and> map_of fields ''data'' = Some (jstrmap (cm_Data configMap))
            \<and> map_of fields ''binaryData'' = Some (jbytesmap (cm_BinaryData configMap))))"
proof -
  have ls: "fst (ListSecrets cs namespace) = Inr (map redact secrets)"
    if "secrets_list cs namespace = Inr secrets"
    using that by (simp add: ListSecrets_def)
  have gs: "fst (GetSecret cs namespace name) = Inr (redact secret)"
    if "secrets_get cs namespace name = Inr secret"
    using that by (simp add: GetSecret_def)
  have hls: "fst (Handler_ListSecrets cs namespace)
           = fst (Handler_ListSecrets (cs\<lparr>secrets_list := (\<lambda>_. Inr (map redact secrets))\<rparr>)
                    namespace)"
    if "secrets_list cs namespace = Inr secrets"
    using that
    by (simp add: Handler_ListSecrets_def ListSecrets_def comp_def secret_list_item_redact)
  have hgs: "fst (Handler_GetSecret cs namespace name)
           = fst (Handler_GetSecret (cs\<lparr>secrets_get := (\<lambda>_ _. Inr (redact secret))\<rparr>)
                    namespace name)"
    if "secrets_get cs namespace name = Inr secret"
    using that by (simp add: Handler_GetSecret_def GetSecret_def redact_payloads)
  have lc: "fst (ListConfigMaps cs namespace) = Inr configMaps"
    if "configmaps_list cs namespace = Inr configMaps"
    using that by (simp add: ListConfigMaps_def)
  have hlc: "fst (Handler_ListConfigMaps cs namespace)
           = Reply StatusOK
               (JMap [(''success'', JBool True),
                      (''data'',
                       JList (map (\<lambda>cm. JMap [(''name'', JStr (Name cm)),
                                               (''namespace'', JStr (Namespace cm)),
                                               (''dataCount'', JInt (map_len (cm_Data cm))),
                                               (''creationTime'', JStr (CreationTimestamp cm)),
                                               (''labels'', jstrmap (Labels cm))])
                                configMaps))])"
    if "configmaps_list cs namespace = Inr configMaps"
    using that
    by (simp add: Handler_ListConfigMaps_def ListConfigMaps_def configmap_list_item_def)
  have gc: "fst (GetConfigMap cs namespace name) = Inr configMap"
    if "configmaps_get cs namespace name = Inr configMap"
    using that by (simp add: GetConfigMap_def)
  have hgc: "\<exists>fields. fst (Handler_GetConfigMap cs namespace name)
                       = Reply StatusOK (JMap [(''success'', JBool True),
                                               (''data'', JMap fields)])
             \<and> map_of fields ''data'' = Some (jstrmap (cm_Data configMap))
             \<and> map_of fields ''binaryData'' = Some (jbytesmap (cm_BinaryData configMap))"
    if "configmaps_get cs namespace name = Inr configMap"
    using that by (simp add: Handler_GetConfigMap_def GetConfigMap_def)
  have red: "\<forall>s \<in> set (map redact secrets). sec_Data s = None \<and> sec_StringData s = None"
    by (simp add: redact_payloads)
  have red1: "sec_Data (redact secret) = None \<and> sec_StringData (redact secret) = None"
    by (simp add: redact_payloads)
  show ?thesis
    using ls gs hls hgs lc hlc gc hgc red red1 by blast
qed

theorem secret_values_redacted_witness:
  "fst (ListSecrets demo_cluster ''default'') = Inr [redact app_credentials]
   \<and> sec_Data app_credentials = Some [(''password'', ''secretpassword123'')]
   \<and> sec_Data (redact app_credentials) = None
   \<and> fst (Handler_GetSecret demo_cluster ''default'' ''app-credentials'')
       = Reply 200
           (JMap [(''success'', JBool True),
                  (''data'',
                   JMap [(''name'', JStr ''app-credentials''),
                         (''namespace'', JStr ''default''),
                         (''type'', JStr ''Opaque''),
                         (''creationTime'', JStr ''2024-01-01T00:00:00Z''),
                         (''labels'', JMap [(''app'', JStr ''myapp'')]),
                         (''annotations'', JNull)])])"
proof -
  have a: "secrets_list demo_cluster ''default'' = Inr [app_credentials]"
    and b: "secrets_get demo_cluster ''default'' ''app-credentials'' = Inr app_credentials"
    and c: "configmaps_list demo_cluster ''default'' = Inr [app_config]"
    and d: "configmaps_get demo_cluster ''default'' ''app-credentials'' = Inr app_config"
    by (simp_all add: demo_cluster_def)
  note t = secret_values_redacted
    [where cs = demo_cluster and namespace = "''default''" and secrets = "[app_credentials]"
       and name = "''app-credentials''" and secret = app_credentials
       and configMaps = "[app_config]" and configMap = app_config]
  have e: "fst (Handler_GetSecret
                  (demo_cluster\<lparr>secrets_get := (\<lambda>_ _. Inr (redact app_credentials))\<rparr>)
                  ''default'' ''app-credentials'')
       = Reply 200
           (JMap [(''success'', JBool True),
                  (''data'',
                   JMap [(''name'', JStr ''app-credentials''),
                         (''namespace'', JStr ''default''),
                         (''type'', JStr ''Opaque''),
                         (''creationTime'', JStr ''2024-01-01T00:00:00Z''),
                         (''labels'', JMap [(''app'', JStr ''myapp'')]),
                         (''annotations'', JNull)])])"
    by (simp add: Handler_GetSecret_def GetSecret_def app_credentials_def StatusOK_def
        jstrmap_def redact_payloads)
  show ?thesis
    using t a b c d e by (simp add: app_credentials_def redact_payloads)
qed

subsection \<open>Usage lookup\<close>

lemma append_usage_vm: "append_usage (details vm ef ev) ''volumeMounts'' x = details (vm @ [x]) ef ev"
  by (auto simp: append_usage_def details_def evidence_def fun_eq_iff)

lemma append_usage_ef: "append_usage (details vm ef ev) ''envFrom'' x = details vm (ef @ [x]) ev"
  by (auto simp: append_usage_def details_def evidence_def fun_eq_iff)

lemma append_usage_ev: "append_usage (details vm ef ev) ''envVars'' x = details vm ef (ev @ [x])"
  by (auto simp: append_usage_def details_def evidence_def fun_eq_iff)

lemma details_empty: "Map.empty = details [] [] []"
  by (auto simp: details_def evidence_def fun_eq_iff)

lemma scan_volumes_eq:
  "scan_volumes kind name (u, details vm ef ev) vs =
     (u \<or> (\<exists>v \<in> set vs. volume_matches kind name v),
      details (vm @ map vol_Name (filter (volume_matches kind name) vs)) ef ev)"
  by (induction vs arbitrary: u vm) (auto simp: append_usage_vm)

lemma scan_envFrom_eq:
  "scan_envFrom kind name c (u, details vm ef ev) es =
     (u \<or> (\<exists>e \<in> set es. envfrom_matches kind name e),
      details vm (ef @ map (\<lambda>e. ctr_Name c) (filter (envfrom_matches kind name) es)) ev)"
  by (induction es arbitrary: u ef) (auto simp: append_usage_ef)

lemma scan_env_eq:
  "scan_env kind name c (u, details vm ef ev) es =
     (u \<or> (\<exists>e \<in> set es. env_matches kind name e),
      details vm ef
        (ev @ map (\<lambda>e. ctr_Name c @ '':'' @ ev_Name e) (filter (env_matches kind name) es)))"
  by (induction es arbitrary: u ev) (auto simp: append_usage_ev)

lemma scan_containers_eq:
  "scan_containers kind name (u, details vm ef ev) cs =
     (u \<or> (\<exists>c \<in> set cs. (\<exists>e \<in> set (ctr_EnvFrom c). envfrom_matches kind name e)
                         \<or> (\<exists>e \<in> set (ctr_Env c). env_matches kind name e)),
      details vm (ef @ concat (map (env_from_of kind name) cs))
        (ev @ concat (map (env_vars_of kind name) cs)))"
  by (induction cs arbitrary: u ef ev)
     (auto simp: scan_envFrom_eq scan_env_eq env_from_of_def env_vars_of_def)

lemma scan_pod_eq:
  "scan_pod kind name pod = (references kind name pod, ue_usage (usage_entry kind name pod))"
  by (simp add: scan_pod_def details_empty scan_volumes_eq scan_containers_eq references_def
      usage_entry_def volume_mounts_def env_from_def env_vars_def)

lemma scan_pods_eq:
  "scan_pods kind name acc pods =
     acc @ map (usage_entry kind name) (filter (references kind name) pods)"
  by (induction pods arbitrary: acc) (auto simp: scan_pod_eq usage_entry_def)

lemma count_list_filter_distinct:
  "distinct (map f xs) \<Longrightarrow> p \<in> set xs \<Longrightarrow>
     count_list (map f (filter R xs)) (f p) = (if R p then 1 else 0)"
proof (induction xs)
  case Nil
  then show ?case by simp
next
  case (Cons x xs)
  have absent: "count_list (map f (filter R xs)) (f x) = 0"
    using Cons.prems(1) by (auto simp: count_list_0_iff)
  show ?case
  proof (cases "p = x")
    case True
    then show ?thesis using absent by simp
  next
    case False
    then have "p \<in> set xs" using Cons.prems(2) by simp
    moreover have "f p \<noteq> f x" using Cons.prems(1) \<open>p \<in> set xs\<close> by (auto simp: image_iff)
    ultimately show ?thesis using Cons by simp
  qed
qed

lemma usage_report_names:
  "map ue_name (podsUsing (usage_report kind name pods))
     = map Name (filter (references kind name) pods)"
  by (simp add: usage_report_def usage_entry_def comp_def)

text \<open>
  C3. For every fixed pod list, the usage lookup of a config map and of a secret returns
  exactly the report of the specification: one entry for each pod of the list that
  references the target through a volume source, a bulk import (\<open>envFrom\<close>) or a
  per-variable reference (\<open>valueFrom\<close>), in the order of the list, with the matching
  volume names under \<open>volumeMounts\<close>, the container names under \<open>envFrom\<close> and the
  \<open>container:variable\<close> pairs under \<open>envVars\<close>; a pod without such a reference has no
  entry. When the pods of the list have distinct names, the name of a referencing pod
  occurs exactly once in the report and the name of any other pod does not occur.
\<close>

theorem usage_lookup_complete:
  assumes "pods_list cs namespace = Inr pods"
  shows "fst (GetConfigMapUsage cs namespace name)
           = Inr (NewSuccessResponse (usage_report OfConfigMap name pods))
       \<and> fst (GetSecretUsage cs namespace name)
           = Inr (NewSuccessResponse (usage_report OfSecret name pods))
       \<and> (\<forall>kind. map ue_name (podsUsing (usage_report kind name pods))
                   = map Name (filter (references kind name) pods))
       \<and> (distinct (map Name pods) \<longrightarrow>
            (\<forall>kind. \<forall>p \<in> set pods.
               count_list (map ue_name (podsUsing (usage_report kind name pods))) (Name p)
                 = (if references kind name p then 1 else 0)))"
proof -
  have a: "fst (GetConfigMapUsage cs namespace name)
           = Inr (NewSuccessResponse (usage_report OfConfigMap name pods))"
    using assms by (simp add: GetConfigMapUsage_def scan_pods_eq usage_report_def Let_def)
  have b: "fst (GetSecretUsage cs namespace name)
           = Inr (NewSuccessResponse (usage_report OfSecret name pods))"
    using assms by (simp add: GetSecretUsage_def scan_pods_eq usage_report_def Let_def)
  have c: "count_list (map ue_name (podsUsing (usage_report kind name pods))) (Name p)
             = (if references kind name p then 1 else 0)"
    if "distinct (map Name pods)" "p \<in> set pods" for kind p
    unfolding usage_report_names using that by (rule count_list_filter_distinct)
  show ?thesis using a b c usage_report_names by blast
qed

theorem usage_lookup_complete_witness:
  "\<exists>rep. fst (GetConfigMapUsage (no_cluster\<lparr>pods_list := (\<lambda>_. Inr [idle_pod, web_pod])\<rparr>)
                 ''default'' ''app-config'') = Inr (NewSuccessResponse rep)
      \<and> map ue_name (podsUsing rep) = [''web'']
      \<and> map (\<lambda>e. ue_usage e ''volumeMounts'') (podsUsing rep) = [Some [''cfg'']]
      \<and> map (\<lambda>e. ue_usage e ''envFrom'') (podsUsing rep) = [Some [''app'']]
      \<and> map (\<lambda>e. ue_usage e ''envVars'') (podsUsing rep) = [Some [''app:DB_HOST'']]
      \<and> totalPods rep = 1
      \<and> count_list (map ue_name (podsUsing rep)) ''web'' = 1
      \<and> count_list (map ue_name (podsUsing rep)) ''idle'' = 0"
proof -
  let ?cs = "no_cluster\<lparr>pods_list := (\<lambda>_. Inr [idle_pod, web_pod])\<rparr>"
  have listed: "pods_list ?cs ''default'' = Inr [idle_pod, web_pod]"
    by simp
  have rep: "usage_report OfConfigMap ''app-config'' [idle_pod, web_pod]
               = \<lparr>podsUsing = [\<lparr>ue_name = ''web'', ue_status = ''Running'',
                                ue_usage = details [''cfg''] [''app''] [''app:DB_HOST'']\<rparr>],
                  totalPods = 1\<rparr>"
    by (simp add: usage_report_def usage_entry_def references_def web_pod_def idle_pod_def
        mk_pod_def volume_mounts_def env_from_def env_vars_def env_from_of_def env_vars_of_def)
  have eq: "fst (GetConfigMapUsage ?cs ''default'' ''app-config'')
              = Inr (NewSuccessResponse
                       (usage_report OfConfigMap ''app-config'' [idle_pod, web_pod]))"
    using usage_lookup_complete [OF listed, of "''app-config''"] by blast
  show ?thesis
    unfolding eq rep by (simp add: NewSuccessResponse_def details_def evidence_def)
qed

subsection \<open>Deployment status\<close>

text \<open>
  C9. \<open>GetDeploymentStatus\<close> dereferences the desired-replica pointer of the fetched
  deployment without a test: when the remote call returns a deployment, the operation
  panics exactly when \<open>Spec.Replicas\<close> is nil, and with a non-nil pointer it returns the
  status with that value as the desired count. When the remote call fails it returns the
  wrapped error.
\<close>

theorem deployment_status_needs_replicas:
  "(deployments_get cs namespace name = Inr deployment \<longrightarrow>
      ((fst (GetDeploymentStatus cs namespace name) = Panics)
         = (dep_Replicas deployment = None))
      \<and> (\<forall>desired. dep_Replicas deployment = Some desired \<longrightarrow>
            (\<exists>fields counts.
               fst (GetDeploymentStatus cs namespace name)
                 = Returns (Inr (NewSuccessResponse (JMap fields)))
               \<and> map_of fields ''replicas'' = Some (JMap counts)
               \<and> map_of counts ''desired'' = Some (jint32 desired))))
   \<and> (\<forall>err. deployments_get cs namespace name = Inl err \<longrightarrow>
         fst (GetDeploymentStatus cs namespace name)
           = Returns (Inl (HandleError err ''get deployment'')))"
  by (auto simp: GetDeploymentStatus_def GetDeployment_def split: option.splits)

theorem deployment_status_needs_replicas_witness:
  "fst (GetDeploymentStatus
          (no_cluster\<lparr>deployments_get := (\<lambda>_ _. Inr (web_deployment None))\<rparr>)
          ''default'' ''web'') = Panics
   \<and> fst (GetDeploymentStatus
          (no_cluster\<lparr>deployments_get := (\<lambda>_ _. Inr (web_deployment (Some 3)))\<rparr>)
          ''default'' ''web'') \<noteq> Panics"
  using deployment_status_needs_replicas
    [of "no_cluster\<lparr>deployments_get := (\<lambda>_ _. Inr (web_deployment None))\<rparr>"
        "''default''" "''web''" "web_deployment None"]
    deployment_status_needs_replicas
    [of "no_cluster\<lparr>deployments_get := (\<lambda>_ _. Inr (web_deployment (Some 3)))\<rparr>"
        "''default''" "''web''" "web_deployment (Some 3)"]
  by (simp add: web_deployment_def)

subsection \<open>Deleting what does not exist\<close>

lemma handle_status_error_contains:
  "prefix operation (HandleError (StatusError code reason msg) operation)
   \<and> sublist msg (HandleError (StatusError code reason msg) operation)
   \<and> sublist reason (HandleError (StatusError code reason msg) operation)"
proof -
  have "sublist msg ((operation @ '' failed: '') @ msg
          @ ('' (Code: '' @ show_int (sint code) @ '', Reason: '' @ reason @ '')''))"
    by (rule sublist_appendI)
  moreover have "sublist reason ((operation @ '' failed: '' @ msg @ '' (Code: ''
          @ show_int (sint code) @ '', Reason: '') @ reason @ '')'')"
    by (rule sublist_appendI)
  ultimately show ?thesis by simp
qed

text \<open>
  C4. When the remote delete call returns a status error (code, reason, message), as it
  does with code 404 and reason \<open>NotFound\<close> for a resource that does not exist, every
  delete handler answers with status 500 after that one remote call. The message of the
  reply is the operation name, \<open>failed:\<close>, the remote message, and the remote code and
  reason: it starts with the local operation name and contains the remote message and
  reason. No delete handler maps the remote code to a status of its own.
\<close>

theorem delete_missing_is_server_error:
  assumes "err = StatusError code reason msg"
  shows "(configmaps_delete cs namespace name = Some err \<longrightarrow>
            Handler_DeleteConfigMap cs namespace name
              = (Reply 500 (JMap [(''success'', JBool False),
                                  (''error'', JStr (HandleError err ''delete configmap''))]),
                 [Call ''configmaps'' ''delete'' namespace name NoPayload]))
       \<and> (secrets_delete cs namespace name = Some err \<longrightarrow>
            Handler_DeleteSecret cs namespace name
              = (Reply 500 (JMap [(''success'', JBool False),
                                  (''error'', JStr (HandleError err ''delete secret''))]),
                 [Call ''secrets'' ''delete'' namespace name NoPayload]))
       \<and> (services_delete cs namespace name = Some err \<longrightarrow>
            Handler_DeleteService cs namespace name
              = (Reply 500 (JMap [(''success'', JBool False),
                                  (''error'', JStr (HandleError err ''delete service''))]),
                 [Call ''services'' ''delete'' namespace name NoPayload]))
       \<and> (deployments_delete cs namespace name = Some err \<longrightarrow>
            Handler_DeleteDeployment cs namespace name
              = (Reply 500 (JMap [(''success'', JBool False),
                                  (''error'', JStr (HandleError err ''delete deployment''))]),
                 [Call ''deployments'' ''delete'' namespace name NoPayload]))
       \<and> (ingresses_delete cs namespace name = Some err \<longrightarrow>
            Handler_DeleteIngress cs namespace name
              = (Reply 500 (JMap [(''success'', JBool False),
                                  (''error'', JStr (HandleError err ''delete ingress''))]),
                 [Call ''ingresses'' ''delete'' namespace name NoPayload]))
       \<and> (pods_delete cs namespace name = Some err \<longrightarrow>
            Handler_DeletePod cs namespace name
              = (Reply 500 (JMap [(''success'', JBool False),
                                  (''error'', JStr (HandleError err ''delete pod''))]),
                 [Call ''pods'' ''delete'' namespace name NoPayload]))
       \<and> (\<forall>operation.
             HandleError err operation
               = operation @ '' failed: '' @ msg @ '' (Code: '' @ show_int (sint code)
                   @ '', Reason: '' @ reason @ '')''
             \<and> prefix operation (HandleError err operation)
             \<and> sublist msg (HandleError err operation)
             \<and> sublist reason (HandleError err operation))"
proof -
  have a: "configmaps_delete cs namespace name = Some err \<longrightarrow>
            Handler_DeleteConfigMap cs namespace name
              = (Reply 500 (JMap [(''success'', JBool False),
                                  (''error'', JStr (HandleError err ''delete configmap''))]),
                 [Call ''configmaps'' ''delete'' namespace name NoPayload])"
    by (simp add: Handler_DeleteConfigMap_def DeleteConfigMap_def server_error_def
        error_reply_def StatusInternalServerError_def)
  have b: "secrets_delete cs namespace name = Some err \<longrightarrow>
            Handler_DeleteSecret cs namespace name
              = (Reply 500 (JMap [(''success'', JBool False),
                                  (''error'', JStr (HandleError err ''delete secret''))]),
                 [Call ''secrets'' ''delete'' namespace name NoPayload])"
    by (simp add: Handler_DeleteSecret_def DeleteSecret_def server_error_def
        error_reply_def StatusInternalServerError_def)
  have c: "services_delete cs namespace name = Some err \<longrightarrow>
            Handler_DeleteService cs namespace name
              = (Reply 500 (JMap [(''success'', JBool False),
                                  (''error'', JStr (HandleError err ''delete service''))]),
                 [Call ''services'' ''delete'' namespace name NoPayload])"
    by (simp add: Handler_DeleteService_def DeleteService_def server_error_def
        error_reply_def StatusInternalServerError_def)
  have d: "deployments_delete cs namespace name = Some err \<longrightarrow>
            Handler_DeleteDeployment cs namespace name
              = (Reply 500 (JMap [(''success'', JBool False),
                                  (''error'', JStr (HandleError err ''delete deployment''))]),
                 [Call ''deployments'' ''delete'' namespace name NoPayload])"
    by (simp add: Handler_DeleteDeployment_def DeleteDeployment_def server_error_def
        error_reply_def StatusInternalServerError_def)
  have e: "ingresses_delete cs namespace name = Some err \<longrightarrow>
            Handler_DeleteIngress cs namespace name
              = (Reply 500 (JMap [(''success'', JBool False),
                                  (''error'', JStr (HandleError err ''delete ingress''))]),
                 [Call ''ingresses'' ''delete'' namespace name NoPayload])"
    by (simp add: Handler_DeleteIngress_def DeleteIngress_def server_error_def
        error_reply_def StatusInternalServerError_def)
  have f: "pods_delete cs namespace name = Some err \<longrightarrow>
            Handler_DeletePod cs namespace name
              = (Reply 500 (JMap [(''success'', JBool False),
                                  (''error'', JStr (HandleError err ''delete pod''))]),
                 [Call ''pods'' ''delete'' namespace name NoPayload])"
    by (simp add: Handler_DeletePod_def DeletePod_def server_error_def
        error_reply_def StatusInternalServerError_def)
  have g: "HandleError err operation
               = operation @ '' failed: '' @ msg @ '' (Code: '' @ show_int (sint code)
                   @ '', Reason: '' @ reason @ '')''
             \<and> prefix operation (HandleError err operation)
             \<and> sublist msg (HandleError err operation)
             \<and> sublist reason (HandleError err operation)" for operation
    unfolding assms using handle_status_error_contains [of operation code reason msg]
    by simp
  show ?thesis using a b c d e f g by blast
qed

theorem delete_missing_is_server_error_witness:
  "Handler_DeleteConfigMap (no_cluster\<lparr>configmaps_delete := (\<lambda>_ _. Some not_found)\<rparr>)
     ''default'' ''app-config''
   = (Reply 500
        (JMap [(''success'', JBool False),
               (''error'',
                JStr ''delete configmap failed: configmaps \"app-config\" not found (Code: 404, Reason: NotFound)'')]),
      [Call ''configmaps'' ''delete'' ''default'' ''app-config'' NoPayload])"
proof -
  have n: "sint (404 :: int32) = 404" by simp
  have s: "show_int 404 = ''404''" by (simp add: show_int_def show_nat.simps)
  show ?thesis
    using delete_missing_is_server_error
      [of not_found 404 "''NotFound''" "''configmaps \"app-config\" not found''"
          "no_cluster\<lparr>configmaps_delete := (\<lambda>_ _. Some not_found)\<rparr>"
          "''default''" "''app-config''"]
    by (simp add: not_found_def n s)
qed

subsection \<open>Updates with an empty body\<close>

text \<open>
  With the body \<open>{}\<close> the update handlers of config maps, services, deployments and
  ingresses submit the object exactly as they fetched it. The secret handler fetches
  through \<open>GetSecret\<close>, which has removed the values, and so submits the secret without
  its data.
\<close>

lemma merge_configmap_empty: "merge_configmap empty_configmap_update existing = existing"
  by (simp add: merge_configmap_def empty_configmap_update_def)

lemma merge_service_empty: "merge_service empty_service_update existing = existing"
  by (simp add: merge_service_def empty_service_update_def)

lemma merge_deployment_empty:
  "merge_deployment empty_deployment_update existing = Some existing"
  by (simp add: merge_deployment_def empty_deployment_update_def)

lemma merge_ingress_empty: "merge_ingress empty_ingress_update existing = existing"
  by (simp add: merge_ingress_def empty_ingress_update_def)

lemma merge_secret_empty: "merge_secret empty_secret_update existing = existing"
  by (simp add: merge_secret_def empty_secret_update_def)

lemma update_configmap_empty_body:
  "configmaps_get cs namespace name = Inr existing \<Longrightarrow>
   snd (Handler_UpdateConfigMap cs (Inr empty_configmap_update) namespace name)
     = [Call ''configmaps'' ''get'' namespace name NoPayload,
        Call ''configmaps'' ''update'' namespace (Name existing) (ConfigMapPayload existing)]"
  by (simp add: Handler_UpdateConfigMap_def GetConfigMap_def UpdateConfigMap_def
      merge_configmap_empty split: sum.splits)

lemma update_service_empty_body:
  "services_get cs namespace name = Inr existing \<Longrightarrow>
   snd (Handler_UpdateService cs (Inr empty_service_update) namespace name)
     = [Call ''services'' ''get'' namespace name NoPayload,
        Call ''services'' ''update'' namespace (Name existing) (ServicePayload existing)]"
  by (simp add: Handler_UpdateService_def GetService_def UpdateService_def
      merge_service_empty split: sum.splits)

lemma update_deployment_empty_body:
  "deployments_get cs namespace name = Inr existing \<Longrightarrow>
   snd (Handler_UpdateDeployment cs (Inr empty_deployment_update) namespace name)
     = [Call ''deployments'' ''get'' namespace name NoPayload,
        Call ''deployments'' ''update'' namespace (Name existing)
          (DeploymentPayload existing)]"
  by (simp add: Handler_UpdateDeployment_def GetDeployment_def UpdateDeployment_def
      merge_deployment_empty split: sum.splits)

lemma update_ingress_empty_body:
  "ingresses_get cs namespace name = Inr existing \<Longrightarrow>
   snd (Handler_UpdateIngress cs (Inr empty_ingress_update) namespace name)
     = [Call ''ingresses'' ''get'' namespace name NoPayload,
        Call ''ingresses'' ''update'' namespace (Name existing) (IngressPayload existing)]"
  by (simp add: Handler_UpdateIngress_def GetIngress_def UpdateIngress_def
      merge_ingress_empty split: sum.splits option.splits)

lemma update_secret_empty_body:
  "secrets_get cs namespace name = Inr existing \<Longrightarrow>
   snd (Handler_UpdateSecret cs (Inr empty_secret_update) namespace name)
     = [Call ''secrets'' ''get'' namespace name NoPayload,
        Call ''secrets'' ''update'' namespace (Name existing)
          (SecretPayload (redact existing))]"
  by (simp add: Handler_UpdateSecret_def GetSecret_def UpdateSecret_def
      merge_secret_empty redact_payloads split: sum.splits)

text \<open>
  C2 fails for secrets. The remote secret \<open>app-credentials\<close> holds a password; the update
  with the body \<open>{}\<close> submits it to the remote API with \<open>Data\<close> nil.
\<close>

theorem update_secret_empty_body_clears_data:
  "secrets_get demo_cluster ''default'' ''app-credentials'' = Inr app_credentials
   \<and> sec_Data app_credentials = Some [(''password'', ''secretpassword123'')]
   \<and> snd (Handler_UpdateSecret demo_cluster (Inr empty_secret_update)
            ''default'' ''app-credentials'')
       = [Call ''secrets'' ''get'' ''default'' ''app-credentials'' NoPayload,
          Call ''secrets'' ''update'' ''default'' ''app-credentials''
            (SecretPayload (app_credentials\<lparr>sec_Data := None\<rparr>))]"
proof -
  have got: "secrets_get demo_cluster ''default'' ''app-credentials'' = Inr app_credentials"
    by (simp add: demo_cluster_def)
  have "redact app_credentials = app_credentials\<lparr>sec_Data := None\<rparr>"
    by (simp add: redact_def app_credentials_def)
  moreover have "Name app_credentials = ''app-credentials''"
    by (simp add: app_credentials_def)
  ultimately show ?thesis
    using got update_secret_empty_body [OF got] by (simp add: app_credentials_def)
qed

subsection \<open>Service status\<close>

lemma no_addresses:
  "\<forall>subset \<in> set subsets. es_Addresses subset = [] \<Longrightarrow>
   concat (map (\<lambda>subset. map endpoint_address_json (es_Addresses subset)) subsets) = []"
  by simp

text \<open>
  C6. A service is created from a request with one port mapping, and the remote API keeps
  the port list as submitted. A later GET of its status then returns a list of ports with
  that single mapping (the protocol defaulting to \<open>TCP\<close>, the target port as text, the
  node port only when positive), and a list of endpoints that is empty when no subset of
  the fetched endpoints object has an address.
\<close>

theorem service_status_after_create:
  assumes "svcr_Ports serviceRequest = [p]"
    and "services_create cs namespace (build_service serviceRequest namespace) = Inr created"
    and "services_get cs namespace (svcr_Name serviceRequest) = Inr stored"
    and "svc_Ports stored = svc_Ports (build_service serviceRequest namespace)"
    and "endpoints_get cs namespace (svcr_Name serviceRequest) = Inr endpoints"
    and "\<forall>subset \<in> set (ep_Subsets endpoints). es_Addresses subset = []"
  shows "(\<exists>body. Handler_CreateService cs (Inr serviceRequest) namespace
                    = (Reply 201 body,
                       [Call ''services'' ''create'' namespace (svcr_Name serviceRequest)
                          (ServicePayload (build_service serviceRequest namespace))]))
       \<and> (\<exists>fields.
             fst (Handler_GetServiceStatus cs namespace (svcr_Name serviceRequest))
               = Reply 200 (JMap [(''success'', JBool True), (''data'', JMap fields)])
             \<and> map_of fields ''ports''
                 = Some (JList
                     [JMap [(''name'', JStr (spr_Name p)),
                            (''protocol'',
                             JStr (if spr_Protocol p \<noteq> [] then spr_Protocol p else ''TCP'')),
                            (''port'', JInt (sint (spr_Port p))),
                            (''targetPort'', JStr (show_int (sint (spr_TargetPort p)))),
                            (''nodePort'',
                             JInt (if 0 < sint (spr_NodePort p)
                                   then sint (spr_NodePort p) else 0))]])
             \<and> map_of fields ''endpoints'' = Some (JList []))"
proof -
  have create: "\<exists>body. Handler_CreateService cs (Inr serviceRequest) namespace
                    = (Reply 201 body,
                       [Call ''services'' ''create'' namespace (svcr_Name serviceRequest)
                          (ServicePayload (build_service serviceRequest namespace))])"
    using assms(2)
    by (simp add: Handler_CreateService_def CreateService_def StatusCreated_def
        build_service_def)
  have ports: "getServicePorts (svc_Ports stored)
                 = [JMap [(''name'', JStr (spr_Name p)),
                          (''protocol'',
                           JStr (if spr_Protocol p \<noteq> [] then spr_Protocol p else ''TCP'')),
                          (''port'', JInt (sint (spr_Port p))),
                          (''targetPort'', JStr (show_int (sint (spr_TargetPort p)))),
                          (''nodePort'',
                           JInt (if 0 < sint (spr_NodePort p)
                                 then sint (spr_NodePort p) else 0))]]"
    using assms(1,4)
    by (simp add: getServicePorts_def build_service_def to_service_port_def
        service_port_json_def jint32_def)
  have eps: "getEndpointAddresses endpoints = []"
    unfolding getEndpointAddresses_def using assms(6) by (rule no_addresses)
  have status: "\<exists>fields.
             fst (Handler_GetServiceStatus cs namespace (svcr_Name serviceRequest))
               = Reply 200 (JMap [(''success'', JBool True), (''data'', JMap fields)])
             \<and> map_of fields ''ports'' = Some (JList (getServicePorts (svc_Ports stored)))
             \<and> map_of fields ''endpoints'' = Some (JList (getEndpointAddresses endpoints))"
    using assms(3,5)
    by (simp add: Handler_GetServiceStatus_def GetServiceStatus_def GetService_def
        NewSuccessResponse_def api_json_def StatusOK_def Let_def)
  show ?thesis
    using create status unfolding ports eps by blast
qed

theorem service_status_after_create_witness:
  "(\<exists>fields.
      fst (Handler_GetServiceStatus nginx_cluster ''default'' ''nginx-service'')
        = Reply 200 (JMap [(''success'', JBool True), (''data'', JMap fields)])
      \<and> map_of fields ''ports''
          = Some (JList [JMap [(''name'', JStr ''http''), (''protocol'', JStr ''TCP''),
                               (''port'', JInt 80), (''targetPort'', JStr ''8080''),
                               (''nodePort'', JInt 0)]])
      \<and> map_of fields ''endpoints'' = Some (JList []))"
proof -
  have p: "svcr_Ports nginx_request
             = [\<lparr>spr_Name = ''http'', spr_Port = 80, spr_TargetPort = 8080,
                 spr_NodePort = 0, spr_Protocol = ''TCP''\<rparr>]"
    by (simp add: nginx_request_def)
  have n: "svcr_Name nginx_request = ''nginx-service''"
    by (simp add: nginx_request_def)
  have c: "services_create nginx_cluster ''default'' (build_service nginx_request ''default'')
             = Inr ((build_service nginx_request ''default'')\<lparr>svc_ClusterIP := ''10.0.0.7''\<rparr>)"
    by (simp add: nginx_cluster_def)
  have g: "services_get nginx_cluster ''default'' (svcr_Name nginx_request)
             = Inr ((build_service nginx_request ''default'')\<lparr>svc_ClusterIP := ''10.0.0.7'',
                      ResourceVersion := ''41''\<rparr>)"
    by (simp add: nginx_cluster_def)
  have s: "svc_Ports ((build_service nginx_request ''default'')\<lparr>svc_ClusterIP := ''10.0.0.7'',
                      ResourceVersion := ''41''\<rparr>)
             = svc_Ports (build_service nginx_request ''default'')"
    by simp
  have e: "endpoints_get nginx_cluster ''default'' (svcr_Name nginx_request)
             = Inr \<lparr>Name = ''nginx-service'', Namespace = ''default'', Labels = None,
                    Annotations = None, CreationTimestamp = ''2024-01-01T00:00:00Z'',
                    ResourceVersion = ''42'', ep_Subsets = []\<rparr>"
    by (simp add: nginx_cluster_def n)
  have a: "\<forall>subset \<in> set (ep_Subsets \<lparr>Name = ''nginx-service'', Namespace = ''default'',
                    Labels = None, Annotations = None,
                    CreationTimestamp = ''2024-01-01T00:00:00Z'',
                    ResourceVersion = ''42'', ep_Subsets = []\<rparr>). es_Addresses subset = []"
    by simp
  have i80: "sint (80 :: int32) = 80" and i8080: "sint (8080 :: int32) = 8080"
    and i0: "sint (0 :: int32) = 0"
    by simp_all
  have d: "show_int 8080 = ''8080''" by (simp add: show_int_def show_nat.simps)
  show ?thesis
    using service_status_after_create [OF p c g s e a]
    by (simp add: n i80 i8080 i0 d)
qed

subsection \<open>Routes\<close>

lemma add_entries_None:
  "fold (\<lambda>e acc. case acc of None \<Rightarrow> None | Some r \<Rightarrow> addEntry r e) es None = None"
  by (induction es) simp_all

lemma register_fold:
  "register router rs
     = fold (\<lambda>e acc. case acc of None \<Rightarrow> None | Some r \<Rightarrow> addEntry r e) (compiled rs)
         (Some router)"
proof (induction rs arbitrary: router)
  case Nil
  show ?case by (simp add: compiled_def)
next
  case (Cons r rs)
  obtain verb pattern handler where r: "r = (verb, pattern, handler)"
    by (cases r) auto
  show ?case
  proof (cases "addEntry router (verb, segments pattern, handler)")
    case None
    then show ?thesis
      using add_entries_None [of "compiled rs"]
      by (simp add: r addRoute_def compiled_def)
  next
    case (Some router')
    then show ?thesis
      using Cons.IH [of router'] by (simp add: r addRoute_def compiled_def)
  qed
qed

lemma register_append:
  "register router (rs @ rs')
     = (case register router rs of None \<Rightarrow> None | Some r \<Rightarrow> register r rs')"
  by (induction rs arbitrary: router) (auto split: option.splits)

lemma compiled_append: "compiled (xs @ ys) = compiled xs @ compiled ys"
  by (simp add: compiled_def)

lemma Group_append: "Group base (xs @ ys) = Group base xs @ Group base ys"
  by (simp add: Group_def)

lemma compiled_namespaces:
  "compiled (Group ''/api/v1'' namespaces_group)
     = [(''GET'', [''api'', ''v1'', ''namespaces''], ''namespaceHandler.ListNamespaces''),
        (''GET'', [''api'', ''v1'', ''namespaces'', '':name''], ''namespaceHandler.GetNamespace''),
        (''GET'', [''api'', ''v1'', ''namespaces'', '':name'', ''metrics''], ''namespaceHandler.GetNamespaceMetrics'')]"
  by (simp add: compiled_def Group_def namespaces_group_def segments_def)

lemma compiled_pods:
  "compiled (Group ''/api/v1'' pods_group)
     = [(''GET'', [''api'', ''v1'', ''pods'', ''namespaces'', '':namespace''], ''podHandler.ListPods''),
        (''GET'', [''api'', ''v1'', ''pods'', ''namespaces'', '':namespace'', '':name''], ''podHandler.GetPod''),
        (''GET'', [''api'', ''v1'', ''pods'', ''namespaces'', '':namespace'', '':name'', ''metrics''], ''podHandler.GetPodMetrics''),
        (''DELETE'', [''api'', ''v1'', ''pods'', ''namespaces'', '':namespace'', '':name''], ''podHandler.DeletePod'')]"
  by (simp add: compiled_def Group_def pods_group_def segments_def)

lemma compiled_deployments:
  "compiled (Group ''/api/v1'' deployments_group)
     = [(''GET'', [''api'', ''v1'', ''deployments'', ''namespaces'', '':namespace''], ''deploymentHandler.ListDeployments''),
        (''POST'', [''api'', ''v1'', ''deployments'', ''namespaces'', '':namespace''], ''deploymentHandler.CreateDeployment''),
        (''GET'', [''api'', ''v1'', ''deployments'', ''namespaces'', '':namespace'', '':name''], ''deploymentHandler.GetDeployment''),
        (''PUT'', [''api'', ''v1'', ''deployments'', ''namespaces'', '':namespace'', '':name''], ''deploymentHandler.UpdateDeployment''),
        (''GET'', [''api'', ''v1'', ''deployments'', ''namespaces'', '':namespace'', '':name'', ''status''], ''deploymentHandler.GetDeploymentStatus''),
        (''DELETE'', [''api'', ''v1'', ''deployments'', ''namespaces'', '':namespace'', '':name''], ''deploymentHandler.DeleteDeployment''),
        (''PUT'', [''api'', ''v1'', ''deployments'', ''namespaces'', '':namespace'', '':name'', ''scale''], ''deploymentHandler.ScaleDeployment'')]"
  by (simp add: compiled_def Group_def deployments_group_def segments_def)

lemma compiled_services:
  "compiled (Group ''/api/v1'' services_group)
     = [(''GET'', [''api'', ''v1'', ''services'', ''namespaces'', '':namespace''], ''serviceHandler.ListServices''),
        (''POST'', [''api'', ''v1'', ''services'', ''namespaces'', '':namespace''], ''serviceHandler.CreateService''),
        (''GET'', [''api'', ''v1'', ''services'', ''namespaces'', '':namespace'', '':name''], ''serviceHandler.GetService''),
        (''PUT'', [''api'', ''v1'', ''services'', ''namespaces'', '':namespace'', '':name''], ''serviceHandler.UpdateService''),
        (''DELETE'', [''api'', ''v1'', ''services'', ''namespaces'', '':namespace'', '':name''], ''serviceHandler.DeleteService''),
        (''GET'', [''api'', ''v1'', ''services'', ''namespaces'', '':namespace'', '':name'', ''status''], ''serviceHandler.GetServiceStatus'')]"
  by (simp add: compiled_def Group_def services_group_def segments_def)

lemma compiled_configMaps:
  "compiled (Group ''/api/v1'' configMaps_group)
     = [(''GET'', [''api'', ''v1'', ''configmaps'', ''namespaces'', '':namespace''], ''configMapHandler.ListConfigMaps''),
        (''POST'', [''api'', ''v1'', ''configmaps'', ''namespaces'', '':namespace''], ''configMapHandler.CreateConfigMap''),
        (''GET'', [''api'', ''v1'', ''configmaps'', ''namespaces'', '':namespace'', '':name''], ''configMapHandler.GetConfigMap''),
        (''PUT'', [''api'', ''v1'', ''configmaps'', ''namespaces'', '':namespace'', '':name''], ''configMapHandler.UpdateConfigMap''),
        (''DELETE'', [''api'', ''v1'', ''configmaps'', ''namespaces'', '':namespace'', '':name''], ''configMapHandler.DeleteConfigMap''),
        (''GET'', [''api'', ''v1'', ''configmaps'', ''namespaces'', '':namespace'', '':name'', ''usage''], ''configMapHandler.GetConfigMapUsage'')]"
  by (simp add: compiled_def Group_def configMaps_group_def segments_def)

lemma compiled_secrets:
  "compiled (Group ''/api/v1'' secrets_group)
     = [(''GET'', [''api'', ''v1'', ''secrets'', ''namespaces'', '':namespace''], ''secretHandler.ListSecrets''),
        (''POST'', [''api'', ''v1'', ''secrets'', ''namespaces'', '':namespace''], ''secretHandler.CreateSecret''),
        (''GET'', [''api'', ''v1'', ''secrets'', ''namespaces'', '':namespace'', '':name''], ''secretHandler.GetSecret''),
        (''PUT'', [''api'', ''v1'', ''secrets'', ''namespaces'', '':namespace'', '':name''], ''secretHandler.UpdateSecret''),
        (''DELETE'', [''api'', ''v1'', ''secrets'', ''namespaces'', '':namespace'', '':name''], ''secretHandler.DeleteSecret'')]"
  by (simp add: compiled_def Group_def secrets_group_def segments_def)

lemma compiled_ingresses:
  "compiled (Group ''/api/v1'' ingresses_group)
     = [(''GET'', [''api'', ''v1'', ''namespaces'', '':namespace'', ''ingresses''], ''ingressHandler.ListIngresses''),
        (''POST'', [''api'', ''v1'', ''namespaces'', '':namespace'', ''ingresses''], ''ingressHandler.CreateIngress''),
        (''GET'', [''api'', ''v1'', ''namespaces'', '':namespace'', ''ingresses'', '':name''], ''ingressHandler.GetIngress''),
        (''PUT'', [''api'', ''v1'', ''namespaces'', '':namespace'', ''ingresses'', '':name''], ''ingressHandler.UpdateIngress''),
        (''DELETE'', [''api'', ''v1'', ''namespaces'', '':namespace'', ''ingresses'', '':name''], ''ingressHandler.DeleteIngress''),
        (''GET'', [''api'', ''v1'', ''namespaces'', '':namespace'', ''ingresses'', '':name'', ''status''], ''ingressHandler.GetIngressStatus'')]"
  by (simp add: compiled_def Group_def ingresses_group_def segments_def)

lemma compiled_health:
  "compiled [(''GET'', ''/health'', ''health'')] = [(''GET'', [''health''], ''health'')]"
  by (simp add: compiled_def segments_def)

lemma compiled_before:
  "compiled routes_before_ingresses
     = [(''GET'', [''health''], ''health'')]
       @ compiled (Group ''/api/v1'' namespaces_group)
       @ compiled (Group ''/api/v1'' pods_group)
       @ compiled (Group ''/api/v1'' deployments_group)
       @ compiled (Group ''/api/v1'' services_group)
       @ compiled (Group ''/api/v1'' configMaps_group)
       @ compiled (Group ''/api/v1'' secrets_group)"
  unfolding routes_before_ingresses_def
  by (simp only: Group_append compiled_append compiled_health)

lemma declared_split:
  "declared_routes = routes_before_ingresses @ Group ''/api/v1'' ingresses_group"
  by (simp add: declared_routes_def routes_before_ingresses_def Group_append)

lemma register_before:
  "register [] routes_before_ingresses = Some (compiled routes_before_ingresses)"
  unfolding register_fold
  unfolding compiled_before compiled_namespaces compiled_pods
    compiled_deployments compiled_services compiled_configMaps compiled_secrets
  by (simp add: addEntry_def refused_def is_wildcard_def)

text \<open>
  The first registration of the ingress group is refused: its pattern has the parameter
  \<open>:namespace\<close> where the route of \<open>GetNamespace\<close>, of the same verb, has \<open>:name\<close>. So
  \<open>setupRoutes\<close> panics after the routes of the other groups are registered.
\<close>

lemma addEntry_refused:
  "e \<in> set router \<Longrightarrow> refused verb pattern e \<Longrightarrow> addEntry router (verb, pattern, handler) = None"
  by (auto simp: addEntry_def list_ex_iff)

lemma GetNamespace_registered:
  "(''GET'', [''api'', ''v1'', ''namespaces'', '':name''], ''namespaceHandler.GetNamespace'')
     \<in> set (compiled routes_before_ingresses)"
  unfolding compiled_before compiled_namespaces by simp

lemma ListIngresses_refused:
  "refused ''GET'' [''api'', ''v1'', ''namespaces'', '':namespace'', ''ingresses'']
     (''GET'', [''api'', ''v1'', ''namespaces'', '':name''], ''namespaceHandler.GetNamespace'')"
  by (simp add: refused_def is_wildcard_def)

lemma register_ingresses_panics:
  "register (compiled routes_before_ingresses) (Group ''/api/v1'' ingresses_group) = None"
proof -
  have first: "addEntry (compiled routes_before_ingresses)
                 (''GET'', [''api'', ''v1'', ''namespaces'', '':namespace'', ''ingresses''],
                  ''ingressHandler.ListIngresses'') = None"
    using GetNamespace_registered ListIngresses_refused by (rule addEntry_refused)
  show ?thesis
    unfolding register_fold compiled_ingresses
    by (simp add: first add_entries_None)
qed

lemma setupRoutes_panics: "setupRoutes = None"
  unfolding setupRoutes_def declared_split register_append
  by (simp add: register_before register_ingresses_panics)

lemma find_namespaces_group:
  "find P (compiled (Group ''/api/v1'' namespaces_group))
     = find P
       [(''GET'', [''api'', ''v1'', ''namespaces''], ''namespaceHandler.ListNamespaces''),
        (''GET'', [''api'', ''v1'', ''namespaces'', '':name''], ''namespaceHandler.GetNamespace''),
        (''GET'', [''api'', ''v1'', ''namespaces'', '':name'', ''metrics''], ''namespaceHandler.GetNamespaceMetrics'')]"
  by (simp only: compiled_namespaces)

lemma find_pods_group:
  "find P (compiled (Group ''/api/v1'' pods_group))
     = find P
       [(''GET'', [''api'', ''v1'', ''pods'', ''namespaces'', '':namespace''], ''podHandler.ListPods''),
        (''GET'', [''api'', ''v1'', ''pods'', ''namespaces'', '':namespace'', '':name''], ''podHandler.GetPod''),
        (''GET'', [''api'', ''v1'', ''pods'', ''namespaces'', '':namespace'', '':name'', ''metrics''], ''podHandler.GetPodMetrics''),
        (''DELETE'', [''api'', ''v1'', ''pods'', ''namespaces'', '':namespace'', '':name''], ''podHandler.DeletePod'')]"
  by (simp only: compiled_pods)

lemma find_deployments_group:
  "find P (compiled (Group ''/api/v1'' deployments_group))
     = find P
       [(''GET'', [''api'', ''v1'', ''deployments'', ''namespaces'', '':namespace''], ''deploymentHandler.ListDeployments''),
        (''POST'', [''api'', ''v1'', ''deployments'', ''namespaces'', '':namespace''], ''deploymentHandler.CreateDeployment''),
        (''GET'', [''api'', ''v1'', ''deployments'', ''namespaces'', '':namespace'', '':name''], ''deploymentHandler.GetDeployment''),
        (''PUT'', [''api'', ''v1'', ''deployments'', ''namespaces'', '':namespace'', '':name''], ''deploymentHandler.UpdateDeployment''),
        (''GET'', [''api'', ''v1'', ''deployments'', ''namespaces'', '':namespace'', '':name'', ''status''], ''deploymentHandler.GetDeploymentStatus''),
        (''DELETE'', [''api'', ''v1'', ''deployments'', ''namespaces'', '':namespace'', '':name''], ''deploymentHandler.DeleteDeployment''),
        (''PUT'', [''api'', ''v1'', ''deployments'', ''namespaces'', '':namespace'', '':name'', ''scale''], ''deploymentHandler.ScaleDeployment'')]"
  by (simp only: compiled_deployments)

lemma find_services_group:
  "find P (compiled (Group ''/api/v1'' services_group))
     = find P
       [(''GET'', [''api'', ''v1'', ''services'', ''namespaces'', '':namespace''], ''serviceHandler.ListServices''),
        (''POST'', [''api'', ''v1'', ''services'', ''namespaces'', '':namespace''], ''serviceHandler.CreateService''),
        (''GET'', [''api'', ''v1'', ''services'', ''namespaces'', '':namespace'', '':name''], ''serviceHandler.GetService''),
        (''PUT'', [''api'', ''v1'', ''services'', ''namespaces'', '':namespace'', '':name''], ''serviceHandler.UpdateService''),
        (''DELETE'', [''api'', ''v1'', ''services'', ''namespaces'', '':namespace'', '':name''], ''serviceHandler.DeleteService''),
        (''GET'', [''api'', ''v1'', ''services'', ''namespaces'', '':namespace'', '':name'', ''status''], ''serviceHandler.GetServiceStatus'')]"
  by (simp only: compiled_services)

lemma find_configMaps_group:
  "find P (compiled (Group ''/api/v1'' configMaps_group))
     = find P
       [(''GET'', [''api'', ''v1'', ''configmaps'', ''namespaces'', '':namespace''], ''configMapHandler.ListConfigMaps''),
        (''POST'', [''api'', ''v1'', ''configmaps'', ''namespaces'', '':namespace''], ''configMapHandler.CreateConfigMap''),
        (''GET'', [''api'', ''v1'', ''configmaps'', ''namespaces'', '':namespace'', '':name''], ''configMapHandler.GetConfigMap''),
        (''PUT'', [''api'', ''v1'', ''configmaps'', ''namespaces'', '':namespace'', '':name''], ''configMapHandler.UpdateConfigMap''),
        (''DELETE'', [''api'', ''v1'', ''configmaps'', ''namespaces'', '':namespace'', '':name''], ''configMapHandler.DeleteConfigMap''),
        (''GET'', [''api'', ''v1'', ''configmaps'', ''namespaces'', '':namespace'', '':name'', ''usage''], ''configMapHandler.GetConfigMapUsage'')]"
  by (simp only: compiled_configMaps)

lemma find_secrets_group:
  "find P (compiled (Group ''/api/v1'' secrets_group))
     = find P
       [(''GET'', [''api'', ''v1'', ''secrets'', ''namespaces'', '':namespace''], ''secretHandler.ListSecrets''),
        (''POST'', [''api'', ''v1'', ''secrets'', ''namespaces'', '':namespace''], ''secretHandler.CreateSecret''),
        (''GET'', [''api'', ''v1'', ''secrets'', ''namespaces'', '':namespace'', '':name''], ''secretHandler.GetSecret''),
        (''PUT'', [''api'', ''v1'', ''secrets'', ''namespaces'', '':namespace'', '':name''], ''secretHandler.UpdateSecret''),
        (''DELETE'', [''api'', ''v1'', ''secrets'', ''namespaces'', '':namespace'', '':name''], ''secretHandler.DeleteSecret'')]"
  by (simp only: compiled_secrets)

lemma find_append:
  "find P (xs @ ys) = (case find P xs of None \<Rightarrow> find P ys | Some x \<Rightarrow> Some x)"
  by (induction xs) auto

text \<open>
  C5 as stated fails for the keys of a config map. The registrations before the ingress
  group are accepted, and in the router they build the request below reaches no handler;
  the routes of the ingress group, on their own, do not reach one either.
\<close>

theorem configmap_keys_not_routed_counterexample:
  "register [] routes_before_ingresses = Some (compiled routes_before_ingresses)
   \<and> dispatch (compiled routes_before_ingresses) ''GET''
        [''api'', ''v1'', ''configmaps'', ''namespaces'', ''default'', ''app-config'', ''keys'']
      = None
   \<and> dispatch (compiled (Group ''/api/v1'' ingresses_group)) ''GET''
        [''api'', ''v1'', ''configmaps'', ''namespaces'', ''default'', ''app-config'', ''keys'']
      = None"
proof -
  have "dispatch (compiled routes_before_ingresses) ''GET''
        [''api'', ''v1'', ''configmaps'', ''namespaces'', ''default'', ''app-config'', ''keys'']
      = None"
    unfolding dispatch_def compiled_before
    by (simp add: find_append route_matches_def seg_match_def is_wildcard_def
        find_namespaces_group find_pods_group find_deployments_group find_services_group
        find_configMaps_group find_secrets_group)
  moreover have "dispatch (compiled (Group ''/api/v1'' ingresses_group)) ''GET''
        [''api'', ''v1'', ''configmaps'', ''namespaces'', ''default'', ''app-config'', ''keys'']
      = None"
    unfolding dispatch_def compiled_ingresses
    by (simp add: route_matches_def seg_match_def is_wildcard_def)
  ultimately show ?thesis
    using register_before by simp
qed

text \<open>
  C5 (as amended). The registrations of \<open>setupRoutes\<close> before the ingress group are all
  accepted by the router, and for non-empty namespace and resource names the router they
  build reaches: list and get for namespaces; list, get and delete for pods; for
  deployments, services, config maps and secrets, list and create under the namespace
  collection and get, update and delete under the named member; and the sub-resources
  metrics (namespaces, pods), status (deployments, services), scale (deployments) and
  usage (config maps). There is no keys route for config maps.
\<close>

theorem routes_registered:
  assumes "ns \<noteq> []" and "name \<noteq> []"
  shows "register [] routes_before_ingresses = Some (compiled routes_before_ingresses)
       \<and> dispatch (compiled routes_before_ingresses) ''GET''
             [''api'', ''v1'', ''namespaces'']
           = Some ''namespaceHandler.ListNamespaces''
       \<and> dispatch (compiled routes_before_ingresses) ''GET''
             [''api'', ''v1'', ''namespaces'', name]
           = Some ''namespaceHandler.GetNamespace''
       \<and> dispatch (compiled routes_before_ingresses) ''GET''
             [''api'', ''v1'', ''namespaces'', name, ''metrics'']
           = Some ''namespaceHandler.GetNamespaceMetrics''
       \<and> dispatch (compiled routes_before_ingresses) ''GET''
             [''api'', ''v1'', ''pods'', ''namespaces'', ns]
           = Some ''podHandler.ListPods''
       \<and> dispatch (compiled routes_before_ingresses) ''GET''
             [''api'', ''v1'', ''pods'', ''namespaces'', ns, name]
           = Some ''podHandler.GetPod''
       \<and> dispatch (compiled routes_before_ingresses) ''GET''
             [''api'', ''v1'', ''pods'', ''namespaces'', ns, name, ''metrics'']
           = Some ''podHandler.GetPodMetrics''
       \<and> dispatch (compiled routes_before_ingresses) ''DELETE''
             [''api'', ''v1'', ''pods'', ''namespaces'', ns, name]
           = Some ''podHandler.DeletePod''
       \<and> dispatch (compiled routes_before_ingresses) ''GET''
             [''api'', ''v1'', ''deployments'', ''namespaces'', ns]
           = Some ''deploymentHandler.ListDeployments''
       \<and> dispatch (compiled routes_before_ingresses) ''POST''
             [''api'', ''v1'', ''deployments'', ''namespaces'', ns]
           = Some ''deploymentHandler.CreateDeployment''
       \<and> dispatch (compiled routes_before_ingresses) ''GET''
             [''api'', ''v1'', ''deployments'', ''namespaces'', ns, name]
           = Some ''deploymentHandler.GetDeployment''
       \<and> dispatch (compiled routes_before_ingresses) ''PUT''
             [''api'', ''v1'', ''deployments'', ''namespaces'', ns, name]
           = Some ''deploymentHandler.UpdateDeployment''
       \<and> dispatch (compiled routes_before_ingresses) ''DELETE''
             [''api'', ''v1'', ''deployments'', ''namespaces'', ns, name]
           = Some ''deploymentHandler.DeleteDeployment''
       \<and> dispatch (compiled routes_before_ingresses) ''GET''
             [''api'', ''v1'', ''services'', ''namespaces'', ns]
           = Some ''serviceHandler.ListServices''
       \<and> dispatch (compiled routes_before_ingresses) ''POST''
             [''api'', ''v1'', ''services'', ''namespaces'', ns]
           = Some ''serviceHandler.CreateService''
       \<and> dispatch (compiled routes_before_ingresses) ''GET''
             [''api'', ''v1'', ''services'', ''namespaces'', ns, name]
           = Some ''serviceHandler.GetService''
       \<and> dispatch (compiled routes_before_ingresses) ''PUT''
             [''api'', ''v1'', ''services'', ''namespaces'', ns, name]
           = Some ''serviceHandler.UpdateService''
       \<and> dispatch (compiled routes_before_ingresses) ''DELETE''
             [''api'', ''v1'', ''services'', ''namespaces'', ns, name]
           = Some ''serviceHandler.DeleteService''
       \<and> dispatch (compiled routes_before_ingresses) ''GET''
             [''api'', ''v1'', ''configmaps'', ''namespaces'', ns]
           = Some ''configMapHandler.ListConfigMaps''
       \<and> dispatch (compiled routes_before_ingresses) ''POST''
             [''api'', ''v1'', ''configmaps'', ''namespaces'', ns]
           = Some ''configMapHandler.CreateConfigMap''
       \<and> dispatch (compiled routes_before_ingresses) ''GET''
             [''api'', ''v1'', ''configmaps'', ''namespaces'', ns, name]
           = Some ''configMapHandler.GetConfigMap''
       \<and> dispatch (compiled routes_before_ingresses) ''PUT''
             [''api'', ''v1'', ''configmaps'', ''namespaces'', ns, name]
           = Some ''configMapHandler.UpdateConfigMap''
       \<and> dispatch (compiled routes_before_ingresses) ''DELETE''
             [''api'', ''v1'', ''configmaps'', ''namespaces'', ns, name]
           = Some ''configMapHandler.DeleteConfigMap''
       \<and> dispatch (compiled routes_before_ingresses) ''GET''
             [''api'', ''v1'', ''secrets'', ''namespaces'', ns]
           = Some ''secretHandler.ListSecrets''
       \<and> dispatch (compiled routes_before_ingresses) ''POST''
             [''api'', ''v1'', ''secrets'', ''namespaces'', ns]
           = Some ''secretHandler.CreateSecret''
       \<and> dispatch (compiled routes_before_ingresses) ''GET''
             [''api'', ''v1'', ''secrets'', ''namespaces'', ns, name]
           = Some ''secretHandler.GetSecret''
       \<and> dispatch (compiled routes_before_ingresses) ''PUT''
             [''api'', ''v1'', ''secrets'', ''namespaces'', ns, name]
           = Some ''secretHandler.UpdateSecret''
       \<and> dispatch (compiled routes_before_ingresses) ''DELETE''
             [''api'', ''v1'', ''secrets'', ''namespaces'', ns, name]
           = Some ''secretHandler.DeleteSecret''
       \<and> dispatch (compiled routes_before_ingresses) ''GET''
             [''api'', ''v1'', ''deployments'', ''namespaces'', ns, name, ''status'']
           = Some ''deploymentHandler.GetDeploymentStatus''
       \<and> dispatch (compiled routes_before_ingresses) ''GET''
             [''api'', ''v1'', ''services'', ''namespaces'', ns, name, ''status'']
           = Some ''serviceHandler.GetServiceStatus''
       \<and> dispatch (compiled routes_before_ingresses) ''PUT''
             [''api'', ''v1'', ''deployments'', ''namespaces'', ns, name, ''scale'']
           = Some ''deploymentHandler.ScaleDeployment''
       \<and> dispatch (compiled routes_before_ingresses) ''GET''
             [''api'', ''v1'', ''configmaps'', ''namespaces'', ns, name, ''usage'']
           = Some ''configMapHandler.GetConfigMapUsage''
       \<and> dispatch (compiled routes_before_ingresses) ''GET''
             [''api'', ''v1'', ''configmaps'', ''namespaces'', ns, name, ''keys'']
           = None"
proof -
  note groups = find_namespaces_group find_pods_group find_deployments_group
    find_services_group find_configMaps_group find_secrets_group
  show ?thesis
    using assms register_before unfolding dispatch_def compiled_before
    by (simp add: find_append route_matches_def seg_match_def is_wildcard_def groups)
qed

theorem routes_registered_witness:
  "dispatch (compiled routes_before_ingresses) ''GET''
     [''api'', ''v1'', ''configmaps'', ''namespaces'', ''default'', ''app-config'', ''usage'']
     = Some ''configMapHandler.GetConfigMapUsage''
   \<and> dispatch (compiled routes_before_ingresses) ''PUT''
     [''api'', ''v1'', ''secrets'', ''namespaces'', ''default'', ''app-credentials'']
     = Some ''secretHandler.UpdateSecret''"
  using routes_registered [of "''default''" "''app-config''"]
        routes_registered [of "''default''" "''app-credentials''"]
  by simp

subsection \<open>Requests that do not bind\<close>

text \<open>
  When \<open>ShouldBindJSON\<close> reports an error, each of the ten create and update handlers
  answers with status 400 and the message \<open>Invalid request format:\<close> followed by the
  binder's error, and makes no call to the remote API.
\<close>

lemma binder_error_is_bad_request:
  "(let rejected = (Reply 400 (JMap [(''success'', JBool False),
                                     (''error'', JStr (''Invalid request format: '' @ err))]),
                    [])
    in Handler_CreateSecret cs (Inl err) namespace = rejected
     \<and> Handler_UpdateSecret cs (Inl err) namespace name = rejected
     \<and> Handler_CreateConfigMap cs (Inl err) namespace = rejected
     \<and> Handler_UpdateConfigMap cs (Inl err) namespace name = rejected
     \<and> Handler_CreateService cs (Inl err) namespace = rejected
     \<and> Handler_UpdateService cs (Inl err) namespace name = rejected
     \<and> Handler_CreateDeployment cs (Inl err) namespace = rejected
     \<and> Handler_UpdateDeployment cs (Inl err) namespace name = rejected
     \<and> Handler_CreateIngress cs (Inl err) namespace = rejected
     \<and> Handler_UpdateIngress cs (Inl err) namespace name = rejected)"
  by (simp add: Handler_CreateSecret_def Handler_UpdateSecret_def Handler_CreateConfigMap_def
      Handler_UpdateConfigMap_def Handler_CreateService_def Handler_UpdateService_def
      Handler_CreateDeployment_def Handler_UpdateDeployment_def Handler_CreateIngress_def
      Handler_UpdateIngress_def bad_request_def error_reply_def StatusBadRequest_def)



text \<open>
  For a service, the binder reports a missing body, a field of the wrong JSON type and
  an absent top-level required field; the create handler then answers with status 400.
\<close>

lemma bind_missing_body: "bind_ServiceCreateRequest None = Inl ''EOF''"
  by (simp add: bind_ServiceCreateRequest_def)

lemma bind_nameless_body:
  "bind_ServiceCreateRequest (Some nameless_body) = Inl (required_error ''Name'')"
  by (simp add: bind_ServiceCreateRequest_def nameless_body_def json_field_def and_then_def
      decode_string_def decode_ports_def decode_port_def decode_int32_def decode_strmap_def
      decode_strings_def join_lines_def)

lemma bind_wrong_type:
  "json_field obj ''name'' = JInt n \<Longrightarrow>
   bind_ServiceCreateRequest (Some (JMap obj)) = Inl (type_error ''name'' ''string'')"
  by (simp add: bind_ServiceCreateRequest_def and_then_def decode_string_def)

lemma create_service_rejects_nameless_body:
  "Handler_CreateService cs (bind_ServiceCreateRequest (Some nameless_body)) namespace
     = (Reply 400 (JMap [(''success'', JBool False),
                         (''error'',
                          JStr (''Invalid request format: '' @ required_error ''Name''))]),
        [])"
  by (simp add: bind_nameless_body Handler_CreateService_def bad_request_def error_reply_def
      StatusBadRequest_def)

lemma bind_portless_body:
  "bind_ServiceCreateRequest (Some portless_body)
     = Inr \<lparr>svcr_Name = ''web'', svcr_Type = ''ClusterIP'',
            svcr_Ports = [\<lparr>spr_Name = ''http'', spr_Port = 0, spr_TargetPort = 0,
                            spr_NodePort = 0, spr_Protocol = []\<rparr>],
            svcr_Selector = Some [(''app'', ''web'')], svcr_Labels = None,
            svcr_ExternalIPs = None\<rparr>"
  by (simp add: bind_ServiceCreateRequest_def portless_body_def json_field_def and_then_def
      decode_string_def decode_ports_def decode_port_def decode_int32_def decode_strmap_def
      decode_strings_def)

text \<open>
  C8 fails for a required field inside a list entry. \<open>ServicePortRequest.Port\<close> carries
  the tag \<open>binding:"required"\<close>, but the \<open>Ports\<close> field of \<open>ServiceCreateRequest\<close> has no
  \<open>dive\<close> tag, so the entries are not validated: a body whose only port entry has no
  port number binds, with port 0. \<open>Handler.CreateService\<close> then submits the service to the
  remote API and answers with 201, or with 500 when the remote refuses it; it never
  answers with 400.
\<close>

theorem create_service_port_not_required:
  "(\<exists>serviceRequest.
      bind_ServiceCreateRequest (Some portless_body) = Inr serviceRequest
      \<and> map spr_Port (svcr_Ports serviceRequest) = [0]
      \<and> snd (Handler_CreateService cs (bind_ServiceCreateRequest (Some portless_body))
                namespace)
          = [Call ''services'' ''create'' namespace ''web''
               (ServicePayload (build_service serviceRequest namespace))])
   \<and> (\<exists>code reply.
         fst (Handler_CreateService cs (bind_ServiceCreateRequest (Some portless_body))
                namespace) = Reply code reply
         \<and> (code = 201 \<or> code = 500))"
proof -
  let ?request = "\<lparr>svcr_Name = ''web'', svcr_Type = ''ClusterIP'',
            svcr_Ports = [\<lparr>spr_Name = ''http'', spr_Port = 0, spr_TargetPort = 0,
                            spr_NodePort = 0, spr_Protocol = []\<rparr>],
            svcr_Selector = Some [(''app'', ''web'')], svcr_Labels = None,
            svcr_ExternalIPs = None\<rparr>"
  have calls: "snd (Handler_CreateService cs (Inr ?request) namespace)
          = [Call ''services'' ''create'' namespace ''web''
               (ServicePayload (build_service ?request namespace))]"
    by (simp add: Handler_CreateService_def CreateService_def build_service_def
        split: sum.splits)
  have reply: "\<exists>code reply.
         fst (Handler_CreateService cs (Inr ?request) namespace) = Reply code reply
         \<and> (code = 201 \<or> code = 500)"
    by (simp add: Handler_CreateService_def CreateService_def server_error_def error_reply_def
        StatusCreated_def StatusInternalServerError_def split: sum.splits)
  show ?thesis
    unfolding bind_portless_body using calls reply by simp
qed

subsection \<open>Start-up\<close>

text \<open>
  With the route table as \<open>setupRoutes\<close> declares it, a start-up whose configuration loads
  and whose client is built does not reach \<open>ListenAndServe\<close>: the registration of the
  ingress routes stops the process first.
\<close>

lemma main_panics_in_setupRoutes:
  "loaded = Inr cfg \<Longrightarrow> NewClient (KubeConfig cfg) = Inr k8sClient \<Longrightarrow>
   main_start loaded NewClient ListenAndServe = Panic"
  by (simp add: main_start_def setupRoutes_panics)

text \<open>
  C7. \<open>NewClient\<close> returns a client handle exactly when the credentials are present
  (host and bearer token, or a configuration file that loads), the client set is built
  and the liveness probe succeeds; in every other case it returns an error. When the
  configuration does not load, or \<open>NewClient\<close> returns an error, \<open>main\<close> ends the process
  with a fatal log line that carries the error, whatever the router and the listener
  would do; when \<open>main\<close> does reach the listening server, the configuration was loaded and
  \<open>NewClient\<close> returned the handle. \<open>config.Load\<close> fails when the configuration file does
  not exist.
\<close>

theorem startup_fails_fast:
  "((NewClient_token Getenv NewForConfig ServerVersion kubeconfigPath = Inr c)
      = (Getenv ''K8S_HOST'' \<noteq> [] \<and> Getenv ''K8S_TOKEN'' \<noteq> []
         \<and> NewForConfig \<lparr>Host = Getenv ''K8S_HOST'', BearerToken = Getenv ''K8S_TOKEN'',
                          Insecure = True\<rparr> = Inr c
         \<and> (\<exists>version. ServerVersion c = Inr version)))
   \<and> ((NewClient_kubeconfig Getenv ClientConfig NewForConfig ServerVersion kubeconfigPath
         = Inr c)
      = (\<exists>config. ClientConfig kubeconfigPath (Getenv ''K8S_HOST'') = Inr config
           \<and> NewForConfig config = Inr c
           \<and> (\<exists>version. ServerVersion c = Inr version)))
   \<and> (\<forall>err. loaded = Inl err \<longrightarrow>
         main_start loaded NewClient ListenAndServe
           = Fatal (''Failed to load configuration: '' @ err))
   \<and> (\<forall>cfg err. loaded = Inr cfg \<and> NewClient (KubeConfig cfg) = Inl err \<longrightarrow>
         main_start loaded NewClient ListenAndServe
           = Fatal (''Failed to create Kubernetes client: '' @ err))
   \<and> (\<forall>address. main_start loaded NewClient ListenAndServe = Listening address c \<longrightarrow>
         (\<exists>cfg. loaded = Inr cfg \<and> NewClient (KubeConfig cfg) = Inr c))
   \<and> (\<forall>err. os_Getenv LookupEnv ''KUBECONFIG'' \<noteq> []
           \<and> Stat (Clean (os_Getenv LookupEnv ''KUBECONFIG'')) = Some (True, err) \<longrightarrow>
         (\<exists>reason. Load LookupEnv UserHomeDir Join Clean Stat = Inl reason))
   \<and> (\<forall>home err. os_Getenv LookupEnv ''KUBECONFIG'' = [] \<and> UserHomeDir = Inr home
           \<and> Stat (Clean (Join [home, ''.kube'', ''config''])) = Some (True, err) \<longrightarrow>
         (\<exists>reason. Load LookupEnv UserHomeDir Join Clean Stat = Inl reason))"
proof -
  have a: "(NewClient_token Getenv NewForConfig ServerVersion kubeconfigPath = Inr c)
      = (Getenv ''K8S_HOST'' \<noteq> [] \<and> Getenv ''K8S_TOKEN'' \<noteq> []
         \<and> NewForConfig \<lparr>Host = Getenv ''K8S_HOST'', BearerToken = Getenv ''K8S_TOKEN'',
                          Insecure = True\<rparr> = Inr c
         \<and> (\<exists>version. ServerVersion c = Inr version))"
    by (auto simp: NewClient_token_def IsHealthy_def Let_def split: sum.splits)
  have b: "(NewClient_kubeconfig Getenv ClientConfig NewForConfig ServerVersion kubeconfigPath
         = Inr c)
      = (\<exists>config. ClientConfig kubeconfigPath (Getenv ''K8S_HOST'') = Inr config
           \<and> NewForConfig config = Inr c
           \<and> (\<exists>version. ServerVersion c = Inr version))"
    by (auto simp: NewClient_kubeconfig_def IsHealthy_def split: sum.splits)
  have c: "main_start loaded NewClient ListenAndServe
             = Fatal (''Failed to load configuration: '' @ err)"
    if "loaded = Inl err" for err
    using that by (simp add: main_start_def)
  have d: "main_start loaded NewClient ListenAndServe
             = Fatal (''Failed to create Kubernetes client: '' @ err)"
    if "loaded = Inr cfg \<and> NewClient (KubeConfig cfg) = Inl err" for cfg err
    using that by (simp add: main_start_def)
  have e: "\<exists>cfg. loaded = Inr cfg \<and> NewClient (KubeConfig cfg) = Inr c"
    if "main_start loaded NewClient ListenAndServe = Listening address c" for address
    using that by (auto simp: main_start_def split: sum.splits option.splits)
  have f: "\<exists>reason. Load LookupEnv UserHomeDir Join Clean Stat = Inl reason"
    if "os_Getenv LookupEnv ''KUBECONFIG'' \<noteq> []
        \<and> Stat (Clean (os_Getenv LookupEnv ''KUBECONFIG'')) = Some (True, err)" for err
    using that by (simp add: Load_def)
  have g: "\<exists>reason. Load LookupEnv UserHomeDir Join Clean Stat = Inl reason"
    if "os_Getenv LookupEnv ''KUBECONFIG'' = [] \<and> UserHomeDir = Inr home
        \<and> Stat (Clean (Join [home, ''.kube'', ''config''])) = Some (True, err)" for home err
    using that by (simp add: Load_def)
  show ?thesis
    using a b c d e f g by blast
qed

theorem startup_fails_fast_witness:
  "main_start (Inr demo_config)
     (NewClient_token host_only (\<lambda>config. Inr (Host config)) (\<lambda>c. Inr ''v1.29.0''))
     (\<lambda>address. None)
     = Fatal ''Failed to create Kubernetes client: K8S_TOKEN environment variable is required''
   \<and> main_start (Inr demo_config)
     (NewClient_token host_and_token (\<lambda>config. Inr (Host config))
        (\<lambda>c. Inl ''connection refused''))
     (\<lambda>address. None)
     = Fatal ''Failed to create Kubernetes client: failed health check: failed to connect to Kubernetes API: connection refused''
   \<and> NewClient_token host_and_token (\<lambda>config. Inr (Host config))
        (\<lambda>c. Inr ''v1.29.0'') ''/home/dev/.kube/config''
     = Inr ''https://10.0.0.1:6443''"
proof -
  have token: "NewClient_token host_only (\<lambda>config. Inr (Host config))
                 (\<lambda>c. Inr ''v1.29.0'') (KubeConfig demo_config)
               = (Inl ''K8S_TOKEN environment variable is required'' :: string + string)"
    by (simp add: NewClient_token_def host_only_def)
  have probe: "NewClient_token host_and_token (\<lambda>config. Inr (Host config))
                 (\<lambda>c. Inl ''connection refused'') (KubeConfig demo_config)
               = (Inl ''failed health check: failed to connect to Kubernetes API: connection refused''
                   :: string + string)"
    by (simp add: NewClient_token_def host_and_token_def IsHealthy_def)
  have first: "main_start (Inr demo_config)
     (NewClient_token host_only (\<lambda>config. Inr (Host config)) (\<lambda>c. Inr ''v1.29.0''))
     (\<lambda>address. None)
     = (Fatal ''Failed to create Kubernetes client: K8S_TOKEN environment variable is required''
          :: string process)"
    using startup_fails_fast
      [where loaded = "Inr demo_config"
         and NewClient = "NewClient_token host_only (\<lambda>config. Inr (Host config))
                            (\<lambda>c. Inr ''v1.29.0'')"
         and ListenAndServe = "\<lambda>address. None"]
      token by simp
  have second: "main_start (Inr demo_config)
     (NewClient_token host_and_token (\<lambda>config. Inr (Host config))
        (\<lambda>c. Inl ''connection refused''))
     (\<lambda>address. None)
     = (Fatal ''Failed to create Kubernetes client: failed health check: failed to connect to Kubernetes API: connection refused''
          :: string process)"
    using startup_fails_fast
      [where loaded = "Inr demo_config"
         and NewClient = "NewClient_token host_and_token (\<lambda>config. Inr (Host config))
                            (\<lambda>c. Inl ''connection refused'')"
         and ListenAndServe = "\<lambda>address. None"]
      probe by simp
  have third: "NewClient_token host_and_token (\<lambda>config. Inr (Host config))
        (\<lambda>c. Inr ''v1.29.0'') ''/home/dev/.kube/config''
     = Inr ''https://10.0.0.1:6443''"
    using startup_fails_fast
      [of host_and_token "\<lambda>config. Inr (Host config)" "\<lambda>c. Inr ''v1.29.0''"
          "''/home/dev/.kube/config''" "''https://10.0.0.1:6443''"]
    by (simp add: host_and_token_def)
  show ?thesis
    using first second third by simp
qed


subsection \<open>Namespace metrics\<close>

lemma count_phases_other:
  "k \<notin> pod_Phase ` set pods \<Longrightarrow> count_phases m pods k = m k"
  by (induction pods arbitrary: m) (auto simp: incr_def)

lemma count_phases_count:
  "count_phases m pods k =
     (if k \<in> pod_Phase ` set pods \<or> m k \<noteq> None
      then Some ((case m k of None \<Rightarrow> 0 | Some c \<Rightarrow> c)
                  + int (length (filter (\<lambda>p. pod_Phase p = k) pods)))
      else None)"
proof (induction pods arbitrary: m)
  case Nil
  show ?case by (cases "m k") simp_all
next
  case (Cons pod pods)
  show ?case
  proof (cases "pod_Phase pod = k")
    case True
    then show ?thesis by (simp add: Cons.IH incr_def)
  next
    case False
    then show ?thesis by (simp add: Cons.IH incr_def)
  qed
qed

text \<open>
  C10. When every fetched pod carries one of the remote API's (capitalised) phase strings,
  the report of \<open>GetNamespaceMetrics\<close> has the four pre-seeded lower-case counters at zero,
  each pod is tallied under its own capitalised phase string as a separate key, holding the
  number of pods of that phase, and \<open>podCount\<close> is the length of the fetched pod list.
\<close>

theorem namespace_metrics_lowercase_zero:
  assumes "pods_list cs name = Inr pods"
    and "\<forall>p \<in> set pods. pod_Phase p \<in> set pod_phases"
  shows "\<exists>r. fst (GetNamespaceMetrics cs name) = Inr r \<and> Success r
           \<and> (\<exists>m. Data r = Some m
                \<and> podCount m = int (length pods)
                \<and> status m ''running'' = Some 0 \<and> status m ''pending'' = Some 0
                \<and> status m ''failed'' = Some 0 \<and> status m ''succeeded'' = Some 0
                \<and> (\<forall>p \<in> set pods.
                      status m (pod_Phase p)
                        = Some (int (length (filter (\<lambda>q. pod_Phase q = pod_Phase p) pods)))
                      \<and> pod_Phase p \<notin> {''running'', ''pending'', ''failed'', ''succeeded''}))"
proof -
  have low: "k \<notin> pod_Phase ` set pods"
    if "k \<in> {''running'', ''pending'', ''failed'', ''succeeded''}" for k
    using assms(2) that by (auto simp: pod_phases_def)
  have cap: "seeded_status (pod_Phase p) = None" if "p \<in> set pods" for p
    using assms(2) that by (auto simp: pod_phases_def seeded_status_def)
  have tally: "count_phases seeded_status pods (pod_Phase p)
                 = Some (int (length (filter (\<lambda>q. pod_Phase q = pod_Phase p) pods)))"
    if "p \<in> set pods" for p
    using that cap [OF that] by (simp add: count_phases_count)
  have notlow: "pod_Phase p \<notin> {''running'', ''pending'', ''failed'', ''succeeded''}"
    if "p \<in> set pods" for p
    using low that by blast
  have zero: "count_phases seeded_status pods k = Some 0"
    if "k \<in> {''running'', ''pending'', ''failed'', ''succeeded''}" for k
    using count_phases_other [OF low [OF that]] that
    by (auto simp: seeded_status_def)
  show ?thesis
    using zero tally notlow assms(1)
    by (simp add: GetNamespaceMetrics_def NewSuccessResponse_def)
qed

theorem namespace_metrics_lowercase_zero_witness:
  "\<exists>r. fst (GetNamespaceMetrics
               (no_cluster\<lparr>pods_list := (\<lambda>_. Inr [mk_pod ''web'' ''Running'' [] [],
                                                   mk_pod ''job'' ''Running'' [] []])\<rparr>)
               ''default'') = Inr r
       \<and> (\<exists>m. Data r = Some m \<and> podCount m = 2
              \<and> status m ''running'' = Some 0 \<and> status m ''Running'' = Some 2)"
  using namespace_metrics_lowercase_zero
    [of "no_cluster\<lparr>pods_list := (\<lambda>_. Inr [mk_pod ''web'' ''Running'' [] [],
                                           mk_pod ''job'' ''Running'' [] []])\<rparr>"
        "''default''"
        "[mk_pod ''web'' ''Running'' [] [], mk_pod ''job'' ''Running'' [] []]"]
  by (auto simp: pod_phases_def mk_pod_def)

end
